theory Spec2Isabelle
  imports Complex_Main
begin

section \<open>Shared vocabulary\<close>

text \<open>
  Identifiers, names and diagnostic codes are JavaScript strings. An exception thrown by
  the host is a value: \<open>TypeError\<close> and \<open>RangeError\<close> are the JavaScript classes of
  the same name, \<open>HostError\<close> is the plain \<^verbatim>\<open>Error\<close> class (the name \<open>Error\<close> is
  taken by the diagnostic level).
\<close>

type_synonym Id = string
type_synonym Name = string
type_synonym Code = string

datatype exn = TypeError string | RangeError string | HostError string

section \<open>The syntax tree\<close>

text \<open>
  Modelled from the spec: the node variants of \<^verbatim>\<open>model.ts\<close>, which is not among the
  sources. Every variant carries its \<open>Id\<close> first; the attributes the validator reads
  (\<open>name\<close>, \<open>isVarArg\<close>, \<open>parameters\<close>, \<open>members\<close>, \<open>body\<close>, \<open>sentences\<close>,
  \<open>catches\<close>, \<open>always\<close>, \<open>reference\<close>) are kept as typed fields, and whatever else a
  variant owns is an ordered list of child nodes. A body held by a parent is the pair of
  the body's \<open>Id\<close> and its sentences; the traversal presents it as a \<open>Body\<close> node.
\<close>

datatype Parameter = Parameter Id Name bool

datatype Reference = Reference Id Name

type_synonym 'n BodyOf = "Id \<times> 'n list"

datatype Node =
    ParameterNode Parameter
  | Import Id Reference
  | Body Id "Node list"
  | Catch Id "Node list"
  | Package Id Name "Node list"
  | Program Id Name "Node BodyOf"
  | Test Id Name "Node BodyOf"
  | Class Id Name "Node list" "Node list"
  | Singleton Id "Name option" "Node list" "Node list"
  | Mixin Id Name "Node list" "Node list"
  | Constructor Id "Parameter list" "Node BodyOf" "Node list"
  | Field Id Name "Node list"
  | Method Id Name "Parameter list" "Node BodyOf option"
  | Variable Id Name "Node list"
  | Return Id "Node list"
  | Assignment Id Reference "Node list"
  | ReferenceNode Reference
  | Self Id
  | New Id "Node list"
  | Literal Id "Node list"
  | Send Id "Node list"
  | Super Id "Node list"
  | If Id "Node list"
  | Throw Id "Node list"
  | Try Id "Node BodyOf" "Node list" "Node BodyOf"
  | Environment Id "Node list"
  | Describe Id Name "Node list"

fun kind :: "Node \<Rightarrow> string" where
  "kind (ParameterNode p) = ''Parameter''"
| "kind (Import i r) = ''Import''"
| "kind (Body i ss) = ''Body''"
| "kind (Catch i cs) = ''Catch''"
| "kind (Package i n ms) = ''Package''"
| "kind (Program i n b) = ''Program''"
| "kind (Test i n b) = ''Test''"
| "kind (Class i n sups ms) = ''Class''"
| "kind (Singleton i n sups ms) = ''Singleton''"
| "kind (Mixin i n sups ms) = ''Mixin''"
| "kind (Constructor i ps b cs) = ''Constructor''"
| "kind (Field i n cs) = ''Field''"
| "kind (Method i n ps b) = ''Method''"
| "kind (Variable i n cs) = ''Variable''"
| "kind (Return i cs) = ''Return''"
| "kind (Assignment i r cs) = ''Assignment''"
| "kind (ReferenceNode r) = ''Reference''"
| "kind (Self i) = ''Self''"
| "kind (New i cs) = ''New''"
| "kind (Literal i cs) = ''Literal''"
| "kind (Send i cs) = ''Send''"
| "kind (Super i cs) = ''Super''"
| "kind (If i cs) = ''If''"
| "kind (Throw i cs) = ''Throw''"
| "kind (Try i b cs a) = ''Try''"
| "kind (Environment i ms) = ''Environment''"
| "kind (Describe i n ms) = ''Describe''"

fun id_of :: "Node \<Rightarrow> Id" where
  "id_of (ParameterNode (Parameter i n v)) = i"
| "id_of (Import i r) = i"
| "id_of (Body i ss) = i"
| "id_of (Catch i cs) = i"
| "id_of (Package i n ms) = i"
| "id_of (Program i n b) = i"
| "id_of (Test i n b) = i"
| "id_of (Class i n sups ms) = i"
| "id_of (Singleton i n sups ms) = i"
| "id_of (Mixin i n sups ms) = i"
| "id_of (Constructor i ps b cs) = i"
| "id_of (Field i n cs) = i"
| "id_of (Method i n ps b) = i"
| "id_of (Variable i n cs) = i"
| "id_of (Return i cs) = i"
| "id_of (Assignment i r cs) = i"
| "id_of (ReferenceNode (Reference i n)) = i"
| "id_of (Self i) = i"
| "id_of (New i cs) = i"
| "id_of (Literal i cs) = i"
| "id_of (Send i cs) = i"
| "id_of (Super i cs) = i"
| "id_of (If i cs) = i"
| "id_of (Throw i cs) = i"
| "id_of (Try i b cs a) = i"
| "id_of (Environment i ms) = i"
| "id_of (Describe i n ms) = i"

text \<open>
  Property reads. \<open>name\<close> and \<open>members\<close> answer \<open>None\<close> where JavaScript answers
  \<^verbatim>\<open>undefined\<close>; \<open>body\<close> is \<open>None\<close> for a method declared without one.
\<close>

fun isVarArg :: "Parameter \<Rightarrow> bool" where
  "isVarArg (Parameter i n v) = v"

fun name :: "Node \<Rightarrow> Name option" where
  "name (ParameterNode (Parameter i n v)) = Some n"
| "name (Package i n ms) = Some n"
| "name (Program i n b) = Some n"
| "name (Test i n b) = Some n"
| "name (Class i n sups ms) = Some n"
| "name (Singleton i n sups ms) = n"
| "name (Mixin i n sups ms) = Some n"
| "name (Field i n cs) = Some n"
| "name (Method i n ps b) = Some n"
| "name (Variable i n cs) = Some n"
| "name (ReferenceNode (Reference i n)) = Some n"
| "name (Describe i n ms) = Some n"
| "name _ = None"

fun members :: "Node \<Rightarrow> Node list option" where
  "members (Package i n ms) = Some ms"
| "members (Class i n sups ms) = Some ms"
| "members (Singleton i n sups ms) = Some ms"
| "members (Mixin i n sups ms) = Some ms"
| "members (Environment i ms) = Some ms"
| "members (Describe i n ms) = Some ms"
| "members _ = None"

fun parameters :: "Node \<Rightarrow> Parameter list" where
  "parameters (Method i n ps b) = ps"
| "parameters (Constructor i ps b cs) = ps"

fun body :: "Node \<Rightarrow> Node BodyOf option" where
  "body (Program i n b) = Some b"
| "body (Test i n b) = Some b"
| "body (Constructor i ps b cs) = Some b"
| "body (Method i n ps b) = b"
| "body (Try i b cs a) = Some b"
| "body _ = None"

fun sentences :: "Node BodyOf \<Rightarrow> Node list" where
  "sentences (i, ss) = ss"

fun catches :: "Node \<Rightarrow> Node list" where
  "catches (Try i b cs a) = cs"

fun always :: "Node \<Rightarrow> Node BodyOf" where
  "always (Try i b cs a) = a"

fun reference :: "Node \<Rightarrow> Reference" where
  "reference (Import i r) = r"
| "reference (Assignment i r cs) = r"

fun refName :: "Reference \<Rightarrow> Name" where
  "refName (Reference i n) = n"

fun bodyNode :: "Node BodyOf \<Rightarrow> Node" where
  "bodyNode (i, ss) = Body i ss"

fun children :: "Node \<Rightarrow> Node list" where
  "children (ParameterNode p) = []"
| "children (Import i r) = [ReferenceNode r]"
| "children (Body i ss) = ss"
| "children (Catch i cs) = cs"
| "children (Package i n ms) = ms"
| "children (Program i n b) = [bodyNode b]"
| "children (Test i n b) = [bodyNode b]"
| "children (Class i n sups ms) = sups @ ms"
| "children (Singleton i n sups ms) = sups @ ms"
| "children (Mixin i n sups ms) = sups @ ms"
| "children (Constructor i ps b cs) = map ParameterNode ps @ cs @ [bodyNode b]"
| "children (Field i n cs) = cs"
| "children (Method i n ps b) =
     map ParameterNode ps @ (case b of None \<Rightarrow> [] | Some b' \<Rightarrow> [bodyNode b'])"
| "children (Variable i n cs) = cs"
| "children (Return i cs) = cs"
| "children (Assignment i r cs) = ReferenceNode r # cs"
| "children (ReferenceNode r) = []"
| "children (Self i) = []"
| "children (New i cs) = cs"
| "children (Literal i cs) = cs"
| "children (Send i cs) = cs"
| "children (Super i cs) = cs"
| "children (If i cs) = cs"
| "children (Throw i cs) = cs"
| "children (Try i b cs a) = bodyNode b # cs @ [bodyNode a]"
| "children (Environment i ms) = ms"
| "children (Describe i n ms) = ms"

text \<open>
  Modelled from the spec: the pre-order, source-order list of the nodes of a subtree,
  which is the order in which \<^verbatim>\<open>reduce\<close> of \<^verbatim>\<open>utils.ts\<close> (not among the sources)
  visits them.
\<close>

fun preorder :: "Node \<Rightarrow> Node list" where
  "preorder (ParameterNode p) = [ParameterNode p]"
| "preorder (Import i r) = [Import i r, ReferenceNode r]"
| "preorder (Body i ss) = Body i ss # concat (map preorder ss)"
| "preorder (Catch i cs) = Catch i cs # concat (map preorder cs)"
| "preorder (Package i n ms) = Package i n ms # concat (map preorder ms)"
| "preorder (Program i n (bi, ss)) =
     Program i n (bi, ss) # Body bi ss # concat (map preorder ss)"
| "preorder (Test i n (bi, ss)) =
     Test i n (bi, ss) # Body bi ss # concat (map preorder ss)"
| "preorder (Class i n sups ms) =
     Class i n sups ms # concat (map preorder sups) @ concat (map preorder ms)"
| "preorder (Singleton i n sups ms) =
     Singleton i n sups ms # concat (map preorder sups) @ concat (map preorder ms)"
| "preorder (Mixin i n sups ms) =
     Mixin i n sups ms # concat (map preorder sups) @ concat (map preorder ms)"
| "preorder (Constructor i ps (bi, ss) cs) =
     Constructor i ps (bi, ss) cs # map ParameterNode ps @ concat (map preorder cs)
       @ Body bi ss # concat (map preorder ss)"
| "preorder (Field i n cs) = Field i n cs # concat (map preorder cs)"
| "preorder (Method i n ps None) = Method i n ps None # map ParameterNode ps"
| "preorder (Method i n ps (Some (bi, ss))) =
     Method i n ps (Some (bi, ss)) # map ParameterNode ps
       @ Body bi ss # concat (map preorder ss)"
| "preorder (Variable i n cs) = Variable i n cs # concat (map preorder cs)"
| "preorder (Return i cs) = Return i cs # concat (map preorder cs)"
| "preorder (Assignment i r cs) =
     Assignment i r cs # ReferenceNode r # concat (map preorder cs)"
| "preorder (ReferenceNode r) = [ReferenceNode r]"
| "preorder (Self i) = [Self i]"
| "preorder (New i cs) = New i cs # concat (map preorder cs)"
| "preorder (Literal i cs) = Literal i cs # concat (map preorder cs)"
| "preorder (Send i cs) = Send i cs # concat (map preorder cs)"
| "preorder (Super i cs) = Super i cs # concat (map preorder cs)"
| "preorder (If i cs) = If i cs # concat (map preorder cs)"
| "preorder (Throw i cs) = Throw i cs # concat (map preorder cs)"
| "preorder (Try i (bi, ss) cs (ai, as)) =
     Try i (bi, ss) cs (ai, as) # Body bi ss # concat (map preorder ss)
       @ concat (map preorder cs) @ Body ai as # concat (map preorder as)"
| "preorder (Environment i ms) = Environment i ms # concat (map preorder ms)"
| "preorder (Describe i n ms) = Describe i n ms # concat (map preorder ms)"

text \<open>
  Modelled from the spec: \<^verbatim>\<open>parentOf\<close> of \<^verbatim>\<open>utils.ts\<close> (not among the sources), a
  lookup by \<open>Id\<close> of the node that owns the given one; it fails on a node that no node
  of the environment owns.
\<close>

definition parentOf :: "Node \<Rightarrow> Node \<Rightarrow> exn + Node" where
  "parentOf environment node =
     (case find (\<lambda>p. id_of node \<in> set (map id_of (children p))) (preorder environment) of
        None \<Rightarrow> Inl (HostError ''node has no parent in the environment'')
      | Some p \<Rightarrow> Inr p)"

section \<open>Array methods whose callback may throw\<close>

text \<open>
  \<^verbatim>\<open>every\<close> stops at the first element that fails, \<^verbatim>\<open>some\<close> at the first that
  passes, and an exception thrown by the callback ends the loop there. \<^verbatim>\<open>findIndex\<close>
  answers -1 when no element passes.
\<close>

fun every :: "('a \<Rightarrow> exn + bool) \<Rightarrow> 'a list \<Rightarrow> exn + bool" where
  "every p [] = Inr True"
| "every p (x # xs) =
     (case p x of Inl e \<Rightarrow> Inl e | Inr b \<Rightarrow> if b then every p xs else Inr False)"

fun some :: "('a \<Rightarrow> exn + bool) \<Rightarrow> 'a list \<Rightarrow> exn + bool" where
  "some p [] = Inr False"
| "some p (x # xs) =
     (case p x of Inl e \<Rightarrow> Inl e | Inr b \<Rightarrow> if b then Inr True else some p xs)"

fun findIndexFrom :: "int \<Rightarrow> ('a \<Rightarrow> bool) \<Rightarrow> 'a list \<Rightarrow> int" where
  "findIndexFrom k p [] = - 1"
| "findIndexFrom k p (x # xs) = (if p x then k else findIndexFrom (k + 1) p xs)"

definition findIndex :: "('a \<Rightarrow> bool) \<Rightarrow> 'a list \<Rightarrow> int" where
  "findIndex p xs = findIndexFrom 0 p xs"

fun mapE :: "('a \<Rightarrow> exn + 'b) \<Rightarrow> 'a list \<Rightarrow> exn + 'b list" where
  "mapE f [] = Inr []"
| "mapE f (x # xs) =
     (case f x of Inl e \<Rightarrow> Inl e
      | Inr y \<Rightarrow> (case mapE f xs of Inl e \<Rightarrow> Inl e | Inr ys \<Rightarrow> Inr (y # ys)))"

fun foldE :: "('b \<Rightarrow> 'a \<Rightarrow> exn + 'b) \<Rightarrow> 'b \<Rightarrow> 'a list \<Rightarrow> exn + 'b" where
  "foldE f acc [] = Inr acc"
| "foldE f acc (x # xs) = (case f acc x of Inl e \<Rightarrow> Inl e | Inr acc' \<Rightarrow> foldE f acc' xs)"

section \<open>The validator (validator.ts)\<close>

datatype Level = Warning | Error

datatype Problem = Problem Code Level Node

definition problem ::
  "Level \<Rightarrow> (Node \<Rightarrow> exn + bool) \<Rightarrow> Node \<Rightarrow> Code \<Rightarrow> exn + Problem option" where
  "problem level condition node code =
     (case condition node of
        Inl e \<Rightarrow> Inl e
      | Inr holds \<Rightarrow> Inr (if \<not> holds then Some (Problem code level node) else None))"

definition warning :: "(Node \<Rightarrow> exn + bool) \<Rightarrow> Node \<Rightarrow> Code \<Rightarrow> exn + Problem option" where
  "warning = problem Warning"

definition error :: "(Node \<Rightarrow> exn + bool) \<Rightarrow> Node \<Rightarrow> Code \<Rightarrow> exn + Problem option" where
  "error = problem Error"

subsection \<open>Validations\<close>

text \<open>
  \<^verbatim>\<open>member2.parameters[member2.parameters.length - 1].isVarArg\<close> is read first: on an
  empty parameter list the indexed element is \<^verbatim>\<open>undefined\<close> and reading its property
  throws a \<^verbatim>\<open>TypeError\<close>. \<^verbatim>\<open>member1 !== member2\<close> compares references; two nodes of one
  tree are the same object exactly when they are the same value, \<open>Id\<close> included.
\<close>

definition canBeCalledWithArgs :: "Node \<Rightarrow> Node \<Rightarrow> exn + bool" where
  "canBeCalledWithArgs member1 member2 =
     (if parameters member2 = [] then Inl (TypeError ''Cannot read property isVarArg of undefined'')
      else Inr (((isVarArg (last (parameters member2))
                   \<and> length (parameters member1) \<ge> length (parameters member2))
                 \<or> length (parameters member2) = length (parameters member1))
                \<and> member1 \<noteq> member2))"

definition matchingConstructors :: "Node list \<Rightarrow> Node \<Rightarrow> exn + bool" where
  "matchingConstructors list member =
     some (\<lambda>m. if kind m = ''Constructor'' then canBeCalledWithArgs m member else Inr False) list"

definition matchingSignatures :: "Node list \<Rightarrow> Node \<Rightarrow> exn + bool" where
  "matchingSignatures list member =
     some (\<lambda>m. if kind m = ''Method'' \<and> name m = name member
                then canBeCalledWithArgs m member else Inr False) list"

definition bodyIsNotEmpty :: "Node \<Rightarrow> exn + bool" where
  "bodyIsNotEmpty node =
     (case body node of
        None \<Rightarrow> Inl (TypeError ''Cannot read property sentences of undefined'')
      | Some b \<Rightarrow> Inr (length (sentences b) \<noteq> 0))"

definition isUpper :: "char \<Rightarrow> bool" where
  "isUpper c = (65 \<le> (of_char c :: nat) \<and> (of_char c :: nat) \<le> 90)"

definition isLower :: "char \<Rightarrow> bool" where
  "isLower c = (97 \<le> (of_char c :: nat) \<and> (of_char c :: nat) \<le> 122)"

text \<open>
  \<^verbatim>\<open>/^[A-Z]$/.test(s[0])\<close>: the first character of \<open>s\<close> is an ASCII capital; on the
  empty string \<^verbatim>\<open>s[0]\<close> is \<^verbatim>\<open>undefined\<close>, which the test reads as the text
  \<^verbatim>\<open>"undefined"\<close> and rejects.
\<close>

definition firstIsUpper :: "Name \<Rightarrow> bool" where
  "firstIsUpper s = (case s of [] \<Rightarrow> False | c # cs \<Rightarrow> isUpper c)"

definition firstIsLower :: "Name \<Rightarrow> bool" where
  "firstIsLower s = (case s of [] \<Rightarrow> False | c # cs \<Rightarrow> isLower c)"

definition keywordList :: "Name list" where
  "keywordList = [''.'', '','', ''('', '')'', '';'', ''_'', ''{'', ''}'',
     ''import'', ''package'', ''program'', ''test'', ''mixed with'', ''class'', ''inherits'',
     ''object'', ''mixin'', ''var'', ''const'', ''='', ''override'', ''method'', ''native'',
     ''constructor'', ''self'', ''super'', ''new'', ''if'', ''else'', ''return'', ''throw'',
     ''try'', ''then always'', ''catch'', '':'', ''+'', ''null'', ''false'', ''true'', ''=>'']"

definition parentMembers :: "Node \<Rightarrow> Node \<Rightarrow> exn + Node list" where
  "parentMembers environment node =
     (case parentOf environment node of
        Inl e \<Rightarrow> Inl e
      | Inr p \<Rightarrow> (case members p of
                   None \<Rightarrow> Inl (TypeError ''Cannot read property every of undefined'')
                 | Some ms \<Rightarrow> Inr ms))"

definition nameIsPascalCase :: "Node \<Rightarrow> Code \<Rightarrow> exn + Problem option" where
  "nameIsPascalCase = warning (\<lambda>node.
     case name node of
       None \<Rightarrow> Inl (TypeError ''Cannot read property 0 of undefined'')
     | Some n \<Rightarrow> Inr (firstIsUpper n))"

definition nameIsCamelCase :: "Node \<Rightarrow> Code \<Rightarrow> exn + Problem option" where
  "nameIsCamelCase = warning (\<lambda>node.
     Inr (case name node of None \<Rightarrow> False | Some n \<Rightarrow> firstIsLower n))"

definition onlyLastParameterIsVarArg :: "Node \<Rightarrow> Code \<Rightarrow> exn + Problem option" where
  "onlyLastParameterIsVarArg = error (\<lambda>node.
     Inr (findIndex isVarArg (parameters node) + 1 = int (length (parameters node))))"

definition nameIsNotKeyword :: "Node \<Rightarrow> Code \<Rightarrow> exn + Problem option" where
  "nameIsNotKeyword = error (\<lambda>node.
     Inr (case name node of None \<Rightarrow> True | Some n \<Rightarrow> n \<notin> set keywordList))"

definition hasCatchOrAlways :: "Node \<Rightarrow> Code \<Rightarrow> exn + Problem option" where
  "hasCatchOrAlways = error (\<lambda>t.
     case body t of
       None \<Rightarrow> Inl (TypeError ''Cannot read property sentences of undefined'')
     | Some b \<Rightarrow>
         Inr (length (catches t) \<noteq> 0
              \<or> length (sentences (always t)) \<noteq> 0 \<and> length (sentences b) \<noteq> 0))"

definition singletonIsNotUnnamed :: "Node \<Rightarrow> Node \<Rightarrow> Code \<Rightarrow> exn + Problem option" where
  "singletonIsNotUnnamed environment = error (\<lambda>node.
     case parentOf environment node of
       Inl e \<Rightarrow> Inl e
     | Inr p \<Rightarrow> Inr (kind p = ''Package'' \<and> name node \<noteq> None))"

definition importHasNotLocalReference :: "Node \<Rightarrow> Node \<Rightarrow> Code \<Rightarrow> exn + Problem option" where
  "importHasNotLocalReference environment = error (\<lambda>node.
     case parentMembers environment node of
       Inl e \<Rightarrow> Inl e
     | Inr ms \<Rightarrow> every (\<lambda>m. Inr (name m \<noteq> Some (refName (reference node)))) ms)"

definition nonAsignationOfFullyQualifiedReferences :: "Node \<Rightarrow> Code \<Rightarrow> exn + Problem option" where
  "nonAsignationOfFullyQualifiedReferences = error (\<lambda>node.
     Inr (CHR ''.'' \<notin> set (refName (reference node))))"

definition fieldNameDifferentFromTheMethods ::
  "Node \<Rightarrow> Node \<Rightarrow> Code \<Rightarrow> exn + Problem option" where
  "fieldNameDifferentFromTheMethods environment = error (\<lambda>node.
     case parentMembers environment node of
       Inl e \<Rightarrow> Inl e
     | Inr ms \<Rightarrow> every (\<lambda>m. Inr (name m \<noteq> name node))
                  (filter (\<lambda>member. kind member = ''Method'') ms))"

definition methodsHaveDistinctSignatures :: "Node \<Rightarrow> Code \<Rightarrow> exn + Problem option" where
  "methodsHaveDistinctSignatures = error (\<lambda>node.
     case members node of
       None \<Rightarrow> Inl (TypeError ''Cannot read property every of undefined'')
     | Some ms \<Rightarrow>
         every (\<lambda>member.
             if kind member = ''Method''
             then (case matchingSignatures ms member of
                     Inl e \<Rightarrow> Inl e | Inr found \<Rightarrow> Inr (\<not> found))
             else Inr False)
           ms)"

definition constructorsHaveDistinctArity ::
  "Node \<Rightarrow> Node \<Rightarrow> Code \<Rightarrow> exn + Problem option" where
  "constructorsHaveDistinctArity environment = error (\<lambda>node.
     case parentMembers environment node of
       Inl e \<Rightarrow> Inl e
     | Inr ms \<Rightarrow>
         every (\<lambda>member.
             if kind member = ''Constructor''
             then (case matchingConstructors ms member of
                     Inl e \<Rightarrow> Inl e | Inr found \<Rightarrow> Inr (\<not> found))
             else Inr False)
           ms)"

definition methodNotOnlyCallToSuper :: "Node \<Rightarrow> Code \<Rightarrow> exn + Problem option" where
  "methodNotOnlyCallToSuper = warning (\<lambda>node.
     case body node of
       None \<Rightarrow> Inl (TypeError ''Cannot read property sentences of undefined'')
     | Some b \<Rightarrow> Inr (\<not> (case sentences b of [s] \<Rightarrow> kind s = ''Super'' | _ \<Rightarrow> False)))"

definition testIsNotEmpty :: "Node \<Rightarrow> Code \<Rightarrow> exn + Problem option" where
  "testIsNotEmpty = warning (\<lambda>node. bodyIsNotEmpty node)"

definition programIsNotEmpty :: "Node \<Rightarrow> Code \<Rightarrow> exn + Problem option" where
  "programIsNotEmpty = warning (\<lambda>node. bodyIsNotEmpty node)"

subsection \<open>Problems by kind\<close>

type_synonym Check = "Node \<Rightarrow> Code \<Rightarrow> exn + Problem option"

definition problemsByKind :: "Node \<Rightarrow> (string \<times> (Code \<times> Check) list) list" where
  "problemsByKind environment =
    [(''Parameter'', [(''nameIsCamelCase'', nameIsCamelCase)]),
     (''Import'', [(''importHasNotLocalReference'', importHasNotLocalReference environment)]),
     (''Body'', []),
     (''Catch'', []),
     (''Package'', []),
     (''Program'', [(''programIsNotEmpty'', programIsNotEmpty)]),
     (''Test'', [(''testIsNotEmpty'', testIsNotEmpty)]),
     (''Class'', [(''nameIsPascalCase'', nameIsPascalCase),
                  (''methodsHaveDistinctSignatures'', methodsHaveDistinctSignatures)]),
     (''Singleton'', [(''nameIsCamelCase'', nameIsCamelCase),
                      (''singletonIsNotUnnamed'', singletonIsNotUnnamed environment)]),
     (''Mixin'', [(''nameIsPascalCase'', nameIsPascalCase)]),
     (''Constructor'',
        [(''constructorsHaveDistinctArity'', constructorsHaveDistinctArity environment)]),
     (''Field'',
        [(''fieldNameDifferentFromTheMethods'', fieldNameDifferentFromTheMethods environment)]),
     (''Method'', [(''onlyLastParameterIsVarArg'', onlyLastParameterIsVarArg),
                   (''nameIsNotKeyword'', nameIsNotKeyword),
                   (''methodNotOnlyCallToSuper'', methodNotOnlyCallToSuper)]),
     (''Variable'', [(''nameIsCamelCase'', nameIsCamelCase),
                     (''nameIsNotKeyword'', nameIsNotKeyword)]),
     (''Return'', []),
     (''Assignment'',
        [(''nonAsignationOfFullyQualifiedReferences'', nonAsignationOfFullyQualifiedReferences)]),
     (''Reference'', [(''nameIsNotKeyword'', nameIsNotKeyword)]),
     (''Self'', []),
     (''New'', []),
     (''Literal'', []),
     (''Send'', []),
     (''Super'', []),
     (''If'', []),
     (''Throw'', []),
     (''Try'', [(''hasCatchOrAlways'', hasCatchOrAlways)]),
     (''Environment'', []),
     (''Describe'', [])]"

text \<open>
  The step of the driver's fold: the checks of the node's kind are run in the order of
  their codes, and the results that are not null are appended to what was found.
\<close>

definition rejectNil :: "'a option list \<Rightarrow> 'a list" where
  "rejectNil rs = concat (map (\<lambda>r. case r of None \<Rightarrow> [] | Some x \<Rightarrow> [x]) rs)"

definition nodeProblems :: "Node \<Rightarrow> Node \<Rightarrow> exn + Problem list" where
  "nodeProblems environment node =
     (case map_of (problemsByKind environment) (kind node) of
        None \<Rightarrow> Inl (TypeError ''Cannot convert undefined or null to object'')
      | Some checks \<Rightarrow>
          (case mapE (\<lambda>(code, check). check node code) checks of
             Inl e \<Rightarrow> Inl e
           | Inr rs \<Rightarrow> Inr (rejectNil rs)))"

definition validateStep :: "Node \<Rightarrow> Problem list \<Rightarrow> Node \<Rightarrow> exn + Problem list" where
  "validateStep environment found node =
     (case nodeProblems environment node of
        Inl e \<Rightarrow> Inl e
      | Inr ps \<Rightarrow> Inr (found @ ps))"

text \<open>
  Modelled from the spec: \<^verbatim>\<open>reduce\<close> of \<^verbatim>\<open>utils.ts\<close>, the depth-first pre-order fold
  over the subtree at the root; an exception thrown by the step ends it.
\<close>

definition reduce :: "('b \<Rightarrow> Node \<Rightarrow> exn + 'b) \<Rightarrow> 'b \<Rightarrow> Node \<Rightarrow> exn + 'b" where
  "reduce step seed rootNode = foldE step seed (preorder rootNode)"

definition validate :: "Node \<Rightarrow> Node \<Rightarrow> exn + Problem list" where
  "validate target environment = reduce (validateStep environment) [] target"


section \<open>Runtime objects and the evaluation\<close>

text \<open>
  Modelled from the spec: the runtime object model of \<^verbatim>\<open>interpreter.ts\<close>, which is not
  among the sources. A runtime object has a module name, a mapping from attribute names
  to \<open>Id\<close>s and an optional inner value; the table of instances maps an \<open>Id\<close> to its
  object. A \<^verbatim>\<open>RuntimeObject\<close> handed to a native is a reference into that table and is
  modelled as the \<open>Id\<close> of the object (\<open>Ref\<close>): \<^verbatim>\<open>obj.id\<close> is the reference itself and
  every other read or write goes through the table, so that a write through one
  reference is seen through every other. The natives never remove an instance; a read
  or write through an \<open>Id\<close> that is not in the table throws as \<^verbatim>\<open>evaluation.instance\<close>
  does, which is how the interpreter resolves the arguments of a native.
\<close>

datatype InnerValue = NumberValue real | StringValue string | IdsValue "Id list"

record RuntimeObject =
  moduleFQN :: string
  attributes :: "string \<rightharpoonup> Id"
  innerValue :: "InnerValue option"

type_synonym Ref = Id

record Frame =
  operandStack :: "Id list"

text \<open>
  Modelled from the spec: the linked environment, of which the natives use two things,
  the node a fully qualified name resolves to, for its \<open>Id\<close>, and whether a module
  resolves a method for a message and an arity (\<^verbatim>\<open>lookupMethod\<close> of \<^verbatim>\<open>model.ts\<close>).
\<close>

record LinkedNode =
  node_id :: Id
  node_lookupMethod :: "string \<Rightarrow> nat \<Rightarrow> bool"

text \<open>
  Modelled from the spec: the evaluation, with its stack of frames and its table of
  instances. The frame stack grows at the end, and so does an operand stack, as the
  arrays of the host do. \<open>uuid\<close> and \<open>created\<close> stand for the generator of fresh
  \<open>Id\<close>s: the next instance gets \<open>uuid (created)\<close>.
\<close>

record Evaluation =
  environment :: "string \<rightharpoonup> LinkedNode"
  frameStack :: "Frame list"
  instances :: "Id \<rightharpoonup> RuntimeObject"
  uuid :: "nat \<Rightarrow> Id"
  created :: nat

text \<open>
  Modelled from the spec: the four sentinel \<open>Id\<close>s of \<^verbatim>\<open>interpreter.ts\<close>, constants
  that differ from one another.
\<close>

definition NULL_ID :: Id where "NULL_ID = ''null''"
definition VOID_ID :: Id where "VOID_ID = ''void''"
definition TRUE_ID :: Id where "TRUE_ID = ''true''"
definition FALSE_ID :: Id where "FALSE_ID = ''false''"

subsection \<open>Computations on an evaluation that may throw\<close>

text \<open>
  A step \<^verbatim>\<open>(evaluation) => ...\<close> answers a value or the exception it threw, together
  with the evaluation as it has left it: what a native wrote before it threw stays
  written.
\<close>

type_synonym 'a Native = "Evaluation \<Rightarrow> (exn + 'a) \<times> Evaluation"

definition returnM :: "'a \<Rightarrow> 'a Native" where
  "returnM x ev = (Inr x, ev)"

definition throw :: "exn \<Rightarrow> 'a Native" where
  "throw e ev = (Inl e, ev)"

definition bindM :: "'a Native \<Rightarrow> ('a \<Rightarrow> 'b Native) \<Rightarrow> 'b Native" where
  "bindM m f ev = (case m ev of (Inl e, ev') \<Rightarrow> (Inl e, ev') | (Inr x, ev') \<Rightarrow> f x ev')"

definition thenM :: "unit Native \<Rightarrow> 'b Native \<Rightarrow> 'b Native" where
  "thenM m k = bindM m (\<lambda>u. k)"

fun filterM :: "('a \<Rightarrow> bool Native) \<Rightarrow> 'a list \<Rightarrow> 'a list Native" where
  "filterM p [] = returnM []"
| "filterM p (x # xs) =
     bindM (p x) (\<lambda>keep. bindM (filterM p xs) (\<lambda>ys. returnM (if keep then x # ys else ys)))"

subsection \<open>The operations of the interpreter the natives call\<close>

text \<open>
  Modelled from the spec: \<^verbatim>\<open>evaluation.instance\<close>, \<^verbatim>\<open>evaluation.createInstance\<close>,
  \<^verbatim>\<open>RuntimeObject.get\<close>, \<^verbatim>\<open>set\<close>, \<^verbatim>\<open>assertIsCollection\<close>, \<^verbatim>\<open>assertIsNumber\<close> and
  \<^verbatim>\<open>environment.getNodeByFQN\<close>. \<open>instance\<close> fails on an \<open>Id\<close> that is not in the
  table; \<open>get\<close> answers the object an attribute refers to, or \<^verbatim>\<open>undefined\<close> (\<open>None\<close>)
  when the attribute is absent; the assertions throw a \<^verbatim>\<open>TypeError\<close> on an inner value
  of another kind and answer the inner value otherwise. \<open>set_innerValue\<close> is the
  assignment to \<^verbatim>\<open>innerValue\<close> (and \<^verbatim>\<open>innerValue.push\<close>, with the list extended).
\<close>

definition instance_of :: "Id \<Rightarrow> Ref Native" where
  "instance_of i ev =
     (case instances ev i of
        None \<Rightarrow> (Inl (RangeError ''Access to undefined instance''), ev)
      | Some obj \<Rightarrow> (Inr i, ev))"

definition deref :: "Ref \<Rightarrow> RuntimeObject Native" where
  "deref r ev =
     (case instances ev r of
        None \<Rightarrow> (Inl (RangeError ''Access to undefined instance''), ev)
      | Some obj \<Rightarrow> (Inr obj, ev))"

definition createInstance :: "string \<Rightarrow> InnerValue option \<Rightarrow> Id Native" where
  "createInstance fqn inner ev =
     (Inr (uuid ev (created ev)),
      ev\<lparr>instances := (instances ev)(uuid ev (created ev) \<mapsto>
             \<lparr>moduleFQN = fqn, attributes = Map.empty, innerValue = inner\<rparr>),
         created := Suc (created ev)\<rparr>)"

definition RuntimeObject_get :: "Ref \<Rightarrow> string \<Rightarrow> Ref option Native" where
  "RuntimeObject_get self key =
     bindM (deref self) (\<lambda>obj.
       case attributes obj key of
         None \<Rightarrow> returnM None
       | Some i \<Rightarrow> bindM (instance_of i) (\<lambda>r. returnM (Some r)))"

definition RuntimeObject_set :: "Ref \<Rightarrow> string \<Rightarrow> Id \<Rightarrow> unit Native" where
  "RuntimeObject_set self key valueId =
     bindM (deref self) (\<lambda>obj ev.
       (Inr (), ev\<lparr>instances := (instances ev)(self \<mapsto> obj\<lparr>attributes := (attributes obj)(key \<mapsto> valueId)\<rparr>)\<rparr>))"

definition set_innerValue :: "Ref \<Rightarrow> InnerValue \<Rightarrow> unit Native" where
  "set_innerValue self v =
     bindM (deref self) (\<lambda>obj ev.
       (Inr (), ev\<lparr>instances := (instances ev)(self \<mapsto> obj\<lparr>innerValue := Some v\<rparr>)\<rparr>))"

definition assertIsCollection :: "Ref \<Rightarrow> Id list Native" where
  "assertIsCollection self =
     bindM (deref self) (\<lambda>obj.
       case innerValue obj of
         Some (IdsValue ids) \<Rightarrow> returnM ids
       | _ \<Rightarrow> throw (TypeError ''Malformed Runtime Object: Collection inner value should be a List<Id>''))"

definition assertIsNumber :: "Ref \<Rightarrow> real Native" where
  "assertIsNumber self =
     bindM (deref self) (\<lambda>obj.
       case innerValue obj of
         Some (NumberValue n) \<Rightarrow> returnM n
       | _ \<Rightarrow> throw (TypeError ''Malformed Runtime Object: Number inner value should be a number''))"

definition getNodeByFQN :: "string \<Rightarrow> LinkedNode Native" where
  "getNodeByFQN fqn ev =
     (case environment ev fqn of
        None \<Rightarrow> (Inl (HostError ''Could not resolve reference''), ev)
      | Some n \<Rightarrow> (Inr n, ev))"

text \<open>
  Modelled from the spec: \<^verbatim>\<open>currentFrame()!.pushOperand(id)\<close>. Without a frame the
  current frame is \<^verbatim>\<open>undefined\<close> and the call on it throws a \<^verbatim>\<open>TypeError\<close>.
\<close>

definition pushOperand :: "Id \<Rightarrow> unit Native" where
  "pushOperand i ev =
     (case frameStack ev of
        [] \<Rightarrow> (Inl (TypeError ''Cannot read property pushOperand of undefined''), ev)
      | f # fs \<Rightarrow>
          (Inr (), ev\<lparr>frameStack :=
             butlast (f # fs) @ [(last (f # fs))\<lparr>operandStack := operandStack (last (f # fs)) @ [i]\<rparr>]\<rparr>))"

text \<open>
  Modelled from the spec: \<^verbatim>\<open>currentFrame\<close> and the operand stack of a frame.
  \<^verbatim>\<open>const currentFrame = evaluation.currentFrame()!\<close> keeps a reference to the frame that
  is current at that moment: the frame at the last position of the stack, named here by
  that position (\<open>None\<close> without a frame). \<^verbatim>\<open>currentFrame.operandStack.pop()!\<close> takes
  the last operand off that same frame and answers \<^verbatim>\<open>undefined\<close> (\<open>None\<close>) when it has
  none.
\<close>

definition currentFrame :: "nat option Native" where
  "currentFrame ev =
     (Inr (if frameStack ev = [] then None else Some (length (frameStack ev) - 1)), ev)"

definition popOperand :: "nat option \<Rightarrow> Id option Native" where
  "popOperand frame ev =
     (case frame of
        None \<Rightarrow> (Inl (TypeError ''Cannot read property operandStack of undefined''), ev)
      | Some k \<Rightarrow>
          if k < length (frameStack ev)
          then (if operandStack (frameStack ev ! k) = [] then (Inr None, ev)
                else (Inr (Some (last (operandStack (frameStack ev ! k)))),
                      ev\<lparr>frameStack := (frameStack ev)[k :=
                           (frameStack ev ! k)\<lparr>operandStack :=
                              butlast (operandStack (frameStack ev ! k))\<rparr>]\<rparr>))
          else (Inl (HostError ''the frame is no longer on the stack''), ev))"

definition instance_opt :: "Id option \<Rightarrow> Ref Native" where
  "instance_opt i =
     (case i of
        None \<Rightarrow> throw (RangeError ''Access to undefined instance'')
      | Some j \<Rightarrow> instance_of j)"

text \<open>
  \<^verbatim>\<open>interpret(evaluation.environment, natives).sendMessage\<close> belongs to the interpreter:
  the natives take it as a parameter.
\<close>

type_synonym SendMessage = "string \<Rightarrow> Id \<Rightarrow> Id list \<Rightarrow> unit Native"

text \<open>
  Modelled from the spec: a send that drives the evaluation to the completion of the
  message and leaves the result on the current operand stack. What the message computes
  is the interpreter's: \<open>run\<close> answers the result and the evaluation it leaves.
\<close>

definition sendMessage :: "(string \<Rightarrow> Id \<Rightarrow> Id list \<Rightarrow> Id Native) \<Rightarrow> SendMessage" where
  "sendMessage run message receiver args = bindM (run message receiver args) pushOperand"

section \<open>The natives of the game module (wre/game.ts)\<close>

definition newList :: "Id list \<Rightarrow> Id Native" where
  "newList elements = createInstance ''wollok.lang.List'' (Some (IdsValue elements))"

definition returnValue :: "Id \<Rightarrow> unit Native" where
  "returnValue i = pushOperand i"

definition returnVoid :: "unit Native" where
  "returnVoid = returnValue VOID_ID"

definition get_helper :: "Ref \<Rightarrow> string \<Rightarrow> unit Native" where
  "get_helper self key =
     bindM (RuntimeObject_get self key) (\<lambda>r.
       returnValue (case r of None \<Rightarrow> NULL_ID | Some i \<Rightarrow> i))"

definition set_helper :: "Ref \<Rightarrow> string \<Rightarrow> Ref \<Rightarrow> unit Native" where
  "set_helper self key val = thenM (RuntimeObject_set self key val) returnVoid"

definition property :: "Ref \<Rightarrow> string \<Rightarrow> Ref option \<Rightarrow> unit Native" where
  "property self key val =
     (case val of Some v \<Rightarrow> set_helper self key v | None \<Rightarrow> get_helper self key)"

definition redirectTo ::
  "SendMessage \<Rightarrow> Id Native \<Rightarrow> bool \<Rightarrow> string \<Rightarrow> Id list \<Rightarrow> unit Native" where
  "redirectTo sm receiver voidMessage message params =
     bindM receiver (\<lambda>r.
       thenM (sm message r params)
         (if voidMessage then returnVoid else returnM ()))"

definition checkNotNull :: "Ref \<Rightarrow> string \<Rightarrow> unit Native" where
  "checkNotNull obj nm = (if obj = NULL_ID then throw (TypeError nm) else returnM ())"

definition mirror :: "Id Native" where
  "mirror = bindM (getNodeByFQN ''wollok.gameMirror.gameMirror'') (\<lambda>n. returnM (node_id n))"

definition io :: "Id Native" where
  "io = bindM (getNodeByFQN ''wollok.io.io'') (\<lambda>n. returnM (node_id n))"

definition wGame :: "Ref Native" where
  "wGame = bindM (getNodeByFQN ''wollok.game.game'') (\<lambda>n. instance_of (node_id n))"

definition getPosition :: "SendMessage \<Rightarrow> Id \<Rightarrow> Ref Native" where
  "getPosition sm i =
     bindM (instance_of i) (\<lambda>r.
     bindM (RuntimeObject_get r ''position'') (\<lambda>position.
       case position of
         Some p \<Rightarrow> returnM p
       | None \<Rightarrow>
           bindM currentFrame (\<lambda>frame.
           thenM (sm ''position'' i [])
             (bindM (popOperand frame) instance_opt))))"

definition samePosition :: "SendMessage \<Rightarrow> Ref \<Rightarrow> Id \<Rightarrow> bool Native" where
  "samePosition sm position i =
     bindM (getPosition sm i) (\<lambda>visualPosition.
     bindM (RuntimeObject_get position ''x'') (\<lambda>px.
     bindM (RuntimeObject_get visualPosition ''x'') (\<lambda>vx.
       if px = vx
       then bindM (RuntimeObject_get position ''y'') (\<lambda>py.
            bindM (RuntimeObject_get visualPosition ''y'') (\<lambda>vy.
              returnM (py = vy)))
       else returnM False)))"

definition addToInnerCollection :: "Ref \<Rightarrow> Ref \<Rightarrow> string \<Rightarrow> unit Native" where
  "addToInnerCollection wObject element fieldName =
     bindM (RuntimeObject_get wObject fieldName) (\<lambda>present.
     thenM (case present of
              None \<Rightarrow> bindM (newList []) (RuntimeObject_set wObject fieldName)
            | Some l \<Rightarrow> returnM ())
       (bindM (RuntimeObject_get wObject fieldName) (\<lambda>fieldList.
          case fieldList of
            None \<Rightarrow> throw (TypeError ''Cannot read property assertIsCollection of undefined'')
          | Some l \<Rightarrow>
              bindM (assertIsCollection l) (\<lambda>ids.
                if element \<in> set ids
                then bindM (deref element) (\<lambda>obj. throw (TypeError (moduleFQN obj)))
                else set_innerValue l (IdsValue (ids @ [element]))))))"

definition addVisual :: "Ref \<Rightarrow> Ref \<Rightarrow> unit Native" where
  "addVisual gameObject visual = addToInnerCollection gameObject visual ''visuals''"

definition addSound :: "Ref \<Rightarrow> Ref \<Rightarrow> unit Native" where
  "addSound gameObject sound = addToInnerCollection gameObject sound ''sounds''"

definition removeFromInnerCollection :: "Ref \<Rightarrow> Ref \<Rightarrow> string \<Rightarrow> unit Native" where
  "removeFromInnerCollection wObject elementToRemove fieldName =
     bindM (RuntimeObject_get wObject fieldName) (\<lambda>fieldList.
       case fieldList of
         None \<Rightarrow> returnM ()
       | Some currentElements \<Rightarrow>
           bindM (assertIsCollection currentElements) (\<lambda>ids.
             set_innerValue currentElements
               (IdsValue (filter (\<lambda>i. i \<noteq> elementToRemove) ids))))"

definition removeVisual :: "Ref \<Rightarrow> Ref \<Rightarrow> unit Native" where
  "removeVisual gameObject visual = removeFromInnerCollection gameObject visual ''visuals''"

definition removeSound :: "Ref \<Rightarrow> Ref \<Rightarrow> unit Native" where
  "removeSound gameObject sound = removeFromInnerCollection gameObject sound ''sounds''"

definition newWString :: "string \<Rightarrow> Id Native" where
  "newWString newString = createInstance ''wollok.lang.String'' (Some (StringValue newString))"

definition toWBoolean :: "bool \<Rightarrow> Id" where
  "toWBoolean booleanToConvert = (if booleanToConvert then TRUE_ID else FALSE_ID)"

definition lookupMethod :: "Ref \<Rightarrow> string \<Rightarrow> bool Native" where
  "lookupMethod self message =
     bindM (deref self) (\<lambda>obj.
     bindM (getNodeByFQN (moduleFQN obj)) (\<lambda>n.
       returnM (node_lookupMethod n message 0)))"

subsection \<open>game\<close>

definition game_addVisual :: "Ref \<Rightarrow> Ref \<Rightarrow> unit Native" where
  "game_addVisual self visual =
     thenM (checkNotNull visual ''visual'')
       (bindM (lookupMethod visual ''position'') (\<lambda>found.
          if \<not> found then throw (TypeError ''position'')
          else thenM (addVisual self visual) returnVoid))"

definition game_addVisualIn :: "Ref \<Rightarrow> Ref \<Rightarrow> Ref \<Rightarrow> unit Native" where
  "game_addVisualIn self visual position =
     thenM (checkNotNull visual ''visual'')
    (thenM (checkNotNull position ''position'')
    (thenM (RuntimeObject_set visual ''position'' position)
    (thenM (addVisual self visual) returnVoid)))"

definition game_addVisualCharacter :: "SendMessage \<Rightarrow> Ref \<Rightarrow> Ref \<Rightarrow> unit Native" where
  "game_addVisualCharacter sm self visual =
     redirectTo sm mirror True ''addVisualCharacter'' [visual]"

definition game_addVisualCharacterIn ::
  "SendMessage \<Rightarrow> Ref \<Rightarrow> Ref \<Rightarrow> Ref \<Rightarrow> unit Native" where
  "game_addVisualCharacterIn sm self visual position =
     redirectTo sm mirror True ''addVisualCharacterIn'' [visual, position]"

definition game_removeVisual :: "Ref \<Rightarrow> Ref \<Rightarrow> unit Native" where
  "game_removeVisual self visual = thenM (removeVisual self visual) returnVoid"

definition game_whenKeyPressedDo :: "SendMessage \<Rightarrow> Ref \<Rightarrow> Ref \<Rightarrow> Ref \<Rightarrow> unit Native" where
  "game_whenKeyPressedDo sm self event action =
     redirectTo sm io True ''addEventHandler'' [event, action]"

definition game_whenCollideDo :: "SendMessage \<Rightarrow> Ref \<Rightarrow> Ref \<Rightarrow> Ref \<Rightarrow> unit Native" where
  "game_whenCollideDo sm self visual action =
     redirectTo sm mirror True ''whenCollideDo'' [visual, action]"

definition game_onCollideDo :: "SendMessage \<Rightarrow> Ref \<Rightarrow> Ref \<Rightarrow> Ref \<Rightarrow> unit Native" where
  "game_onCollideDo sm self visual action =
     redirectTo sm mirror True ''onCollideDo'' [visual, action]"

definition game_onTick :: "SendMessage \<Rightarrow> Ref \<Rightarrow> Ref \<Rightarrow> Ref \<Rightarrow> Ref \<Rightarrow> unit Native" where
  "game_onTick sm self milliseconds nm action =
     redirectTo sm mirror True ''onTick'' [milliseconds, nm, action]"

definition game_schedule :: "SendMessage \<Rightarrow> Ref \<Rightarrow> Ref \<Rightarrow> Ref \<Rightarrow> unit Native" where
  "game_schedule sm self milliseconds action =
     redirectTo sm mirror True ''schedule'' [milliseconds, action]"

definition game_removeTickEvent :: "SendMessage \<Rightarrow> Ref \<Rightarrow> Ref \<Rightarrow> unit Native" where
  "game_removeTickEvent sm self event = redirectTo sm io True ''removeTimeHandler'' [event]"

definition game_allVisuals :: "Ref \<Rightarrow> unit Native" where
  "game_allVisuals self =
     bindM (RuntimeObject_get self ''visuals'') (\<lambda>visuals.
       case visuals of
         None \<Rightarrow> bindM (newList []) returnValue
       | Some currentVisuals \<Rightarrow>
           bindM (assertIsCollection currentVisuals) (\<lambda>ids.
           bindM (newList ids) returnValue))"

definition game_hasVisual :: "Ref \<Rightarrow> Ref \<Rightarrow> unit Native" where
  "game_hasVisual self visual =
     bindM (RuntimeObject_get self ''visuals'') (\<lambda>visuals.
       case visuals of
         None \<Rightarrow> returnValue FALSE_ID
       | Some currentVisuals \<Rightarrow>
           bindM (assertIsCollection currentVisuals) (\<lambda>ids.
             returnValue (toWBoolean (visual \<in> set ids))))"

definition game_getObjectsIn :: "SendMessage \<Rightarrow> Ref \<Rightarrow> Ref \<Rightarrow> unit Native" where
  "game_getObjectsIn sm self position =
     bindM (RuntimeObject_get self ''visuals'') (\<lambda>visuals.
       case visuals of
         None \<Rightarrow> bindM (newList []) returnValue
       | Some currentVisuals \<Rightarrow>
           bindM (assertIsCollection currentVisuals) (\<lambda>ids.
           bindM (filterM (samePosition sm position) ids) (\<lambda>found.
           bindM (newList found) returnValue)))"

text \<open>
  A number is held by the real it denotes. \<^verbatim>\<open>currentTime + 2 * 1000\<close> is the host's
  addition of two doubles, which rounds: it is the parameter \<open>addDoubles\<close>
  (\<^verbatim>\<open>2 * 1000\<close> is exact).
\<close>

definition game_say ::
  "SendMessage \<Rightarrow> (real \<Rightarrow> real \<Rightarrow> real) \<Rightarrow> Ref \<Rightarrow> Ref \<Rightarrow> Ref \<Rightarrow> unit Native" where
  "game_say sm addDoubles self visual message =
     bindM currentFrame (\<lambda>frame.
     bindM io (\<lambda>receiver.
     thenM (sm ''currentTime'' receiver [])
    (bindM (popOperand frame) (\<lambda>top.
     bindM (instance_opt top) (\<lambda>wCurrentTime.
     bindM (assertIsNumber wCurrentTime) (\<lambda>currentTime.
     bindM (createInstance ''wollok.lang.Number'' (Some (NumberValue (addDoubles currentTime (2 * 1000)))))
       (\<lambda>messageTimeId.
     bindM (instance_of messageTimeId) (\<lambda>messageTime.
     thenM (set_helper visual ''message'' message)
           (set_helper visual ''messageTime'' messageTime)))))))))"

definition game_clear :: "SendMessage \<Rightarrow> Ref \<Rightarrow> unit Native" where
  "game_clear sm self =
     bindM io (\<lambda>receiver.
     thenM (sm ''clear'' receiver [])
    (thenM (bindM (newList []) (RuntimeObject_set self ''visuals''))
       returnVoid))"

definition game_colliders :: "SendMessage \<Rightarrow> Ref \<Rightarrow> Ref \<Rightarrow> unit Native" where
  "game_colliders sm self visual =
     thenM (checkNotNull visual ''visual'')
       (bindM (RuntimeObject_get self ''visuals'') (\<lambda>visuals.
          case visuals of
            None \<Rightarrow> bindM (newList []) returnValue
          | Some currentVisuals \<Rightarrow>
              bindM (assertIsCollection currentVisuals) (\<lambda>ids.
              bindM (getPosition sm visual) (\<lambda>position.
              bindM (filterM (samePosition sm position) ids) (\<lambda>found.
              bindM (newList (filter (\<lambda>i. i \<noteq> visual) found)) returnValue)))))"

definition game_title :: "Ref \<Rightarrow> Ref option \<Rightarrow> unit Native" where
  "game_title self title = property self ''title'' title"

definition game_width :: "Ref \<Rightarrow> Ref option \<Rightarrow> unit Native" where
  "game_width self width = property self ''width'' width"

definition game_height :: "Ref \<Rightarrow> Ref option \<Rightarrow> unit Native" where
  "game_height self height = property self ''height'' height"

definition game_ground :: "Ref \<Rightarrow> Ref \<Rightarrow> unit Native" where
  "game_ground self ground = set_helper self ''ground'' ground"

definition game_boardGround :: "Ref \<Rightarrow> Ref \<Rightarrow> unit Native" where
  "game_boardGround self boardGround = set_helper self ''boardGround'' boardGround"

definition game_doCellSize :: "Ref \<Rightarrow> Ref \<Rightarrow> unit Native" where
  "game_doCellSize self sz = set_helper self ''cellSize'' sz"

definition game_stop :: "Ref \<Rightarrow> unit Native" where
  "game_stop self = thenM (RuntimeObject_set self ''running'' FALSE_ID) returnVoid"

definition game_hideAttributes :: "Ref \<Rightarrow> Ref \<Rightarrow> unit Native" where
  "game_hideAttributes self visual =
     thenM (RuntimeObject_set visual ''showAttributes'' FALSE_ID) returnVoid"

definition game_showAttributes :: "Ref \<Rightarrow> Ref \<Rightarrow> unit Native" where
  "game_showAttributes self visual =
     thenM (RuntimeObject_set visual ''showAttributes'' TRUE_ID) returnVoid"

definition game_errorReporter :: "Ref \<Rightarrow> Ref \<Rightarrow> unit Native" where
  "game_errorReporter self visual =
     thenM (RuntimeObject_set self ''errorReporter'' visual) returnVoid"

definition game_doStart :: "Ref \<Rightarrow> Ref \<Rightarrow> unit Native" where
  "game_doStart self isRepl = thenM (RuntimeObject_set self ''running'' TRUE_ID) returnVoid"

subsection \<open>Sound\<close>

text \<open>
  \<^verbatim>\<open>self.get('status')?.innerValue\<close>: the inner value of the object the status
  attribute refers to, \<^verbatim>\<open>undefined\<close> (\<open>None\<close>) without the attribute.
\<close>

definition statusInnerValue :: "Ref \<Rightarrow> InnerValue option Native" where
  "statusInnerValue self =
     bindM (RuntimeObject_get self ''status'') (\<lambda>status.
       case status of
         None \<Rightarrow> returnM None
       | Some s \<Rightarrow> bindM (deref s) (\<lambda>obj. returnM (innerValue obj)))"

definition Sound_play :: "Ref \<Rightarrow> unit Native" where
  "Sound_play self =
     bindM wGame (\<lambda>g.
     bindM (RuntimeObject_get g ''running'') (\<lambda>running.
       if running \<noteq> Some TRUE_ID
       then throw (HostError ''You cannot play a sound if game has not started'')
       else bindM (newWString ''played'') (\<lambda>s.
            thenM (RuntimeObject_set self ''status'' s)
           (bindM wGame (\<lambda>g'.
            thenM (addSound g' self) returnVoid)))))"

definition Sound_played :: "Ref \<Rightarrow> unit Native" where
  "Sound_played self =
     bindM (statusInnerValue self) (\<lambda>v.
       returnValue (toWBoolean (v = Some (StringValue ''played''))))"

definition Sound_stop :: "Ref \<Rightarrow> unit Native" where
  "Sound_stop self =
     bindM (statusInnerValue self) (\<lambda>v.
       if v \<noteq> Some (StringValue ''played'')
       then throw (HostError ''You cannot stop a sound that is not played'')
       else bindM (newWString ''stopped'') (\<lambda>s.
            thenM (RuntimeObject_set self ''status'' s)
           (bindM wGame (\<lambda>g.
            thenM (removeSound g self) returnVoid))))"

definition Sound_pause :: "Ref \<Rightarrow> unit Native" where
  "Sound_pause self =
     bindM (statusInnerValue self) (\<lambda>v.
       if v \<noteq> Some (StringValue ''played'')
       then throw (HostError ''You cannot pause a sound that is not played'')
       else bindM (newWString ''paused'') (\<lambda>s.
            thenM (RuntimeObject_set self ''status'' s) returnVoid))"

definition Sound_resume :: "Ref \<Rightarrow> unit Native" where
  "Sound_resume self =
     bindM (statusInnerValue self) (\<lambda>v.
       if v \<noteq> Some (StringValue ''paused'')
       then throw (HostError ''You cannot resume a sound that is not paused'')
       else bindM (newWString ''played'') (\<lambda>s.
            thenM (RuntimeObject_set self ''status'' s) returnVoid))"

definition Sound_paused :: "Ref \<Rightarrow> unit Native" where
  "Sound_paused self =
     bindM (statusInnerValue self) (\<lambda>v.
       returnValue (toWBoolean (v = Some (StringValue ''paused''))))"

definition Sound_volume :: "Ref \<Rightarrow> Ref option \<Rightarrow> unit Native" where
  "Sound_volume self newVolume =
     thenM (case newVolume of
              None \<Rightarrow> returnM ()
            | Some volume \<Rightarrow>
                bindM (assertIsNumber volume) (\<lambda>v.
                  if v < 0 \<or> v > 1 then throw (RangeError ''newVolume'') else returnM ()))
       (property self ''volume'' newVolume)"

definition Sound_shouldLoop :: "Ref \<Rightarrow> Ref option \<Rightarrow> unit Native" where
  "Sound_shouldLoop self looping = property self ''loop'' looping"

section \<open>Reading an evaluation\<close>

text \<open>
  What the claims say about an evaluation is read off it with these: the \<open>Id\<close> an
  attribute of an instance holds, the inner value of an instance, the \<open>Id\<close>s of a
  collection, and the operand stack of the current frame.
\<close>

definition attributeOf :: "Evaluation \<Rightarrow> Ref \<Rightarrow> string \<Rightarrow> Id option" where
  "attributeOf ev r key = (case instances ev r of None \<Rightarrow> None | Some obj \<Rightarrow> attributes obj key)"

definition innerOf :: "Evaluation \<Rightarrow> Id \<Rightarrow> InnerValue option" where
  "innerOf ev i = (case instances ev i of None \<Rightarrow> None | Some obj \<Rightarrow> innerValue obj)"

definition isCollection :: "Evaluation \<Rightarrow> Id \<Rightarrow> bool" where
  "isCollection ev i = (case innerOf ev i of Some (IdsValue ids) \<Rightarrow> True | _ \<Rightarrow> False)"

definition elements :: "Evaluation \<Rightarrow> Id \<Rightarrow> Id list" where
  "elements ev i = (case innerOf ev i of Some (IdsValue ids) \<Rightarrow> ids | _ \<Rightarrow> [])"

definition collectionOf :: "Evaluation \<Rightarrow> Ref \<Rightarrow> string \<Rightarrow> Id list" where
  "collectionOf ev r key = (case attributeOf ev r key of None \<Rightarrow> [] | Some l \<Rightarrow> elements ev l)"

definition topOperands :: "Evaluation \<Rightarrow> Id list" where
  "topOperands ev = operandStack (last (frameStack ev))"

definition isLive :: "Evaluation \<Rightarrow> Id \<Rightarrow> bool" where
  "isLive ev i = (instances ev i \<noteq> None)"

text \<open>The attribute is absent, or the instance it refers to is in the table.\<close>

definition liveAttribute :: "Evaluation \<Rightarrow> Ref \<Rightarrow> string \<Rightarrow> bool" where
  "liveAttribute ev r key =
     (case attributeOf ev r key of None \<Rightarrow> True | Some i \<Rightarrow> isLive ev i)"

text \<open>The status of a sound: the inner value of what its status attribute refers to.\<close>

definition statusOf :: "Evaluation \<Rightarrow> Ref \<Rightarrow> InnerValue option" where
  "statusOf ev self = (case attributeOf ev self ''status'' of None \<Rightarrow> None | Some s \<Rightarrow> innerOf ev s)"

text \<open>
  Two positions are colocated when their x attributes hold the same \<open>Id\<close> and their y
  attributes hold the same \<open>Id\<close> (both absent counts as the same). A position can be
  compared when it is live and its x and y attributes are.
\<close>

definition colocated :: "Evaluation \<Rightarrow> Ref \<Rightarrow> Ref \<Rightarrow> bool" where
  "colocated ev p q =
     (attributeOf ev p ''x'' = attributeOf ev q ''x''
      \<and> attributeOf ev p ''y'' = attributeOf ev q ''y'')"

definition comparable :: "Evaluation \<Rightarrow> Ref \<Rightarrow> bool" where
  "comparable ev p = (isLive ev p \<and> liveAttribute ev p ''x'' \<and> liveAttribute ev p ''y'')"

text \<open>
  The position of a visual: what its position attribute holds when it has one, and
  otherwise what sending it the position selector answers.
\<close>

definition positionOf :: "Evaluation \<Rightarrow> (Id \<Rightarrow> Id) \<Rightarrow> Id \<Rightarrow> Id" where
  "positionOf ev answer i =
     (case attributeOf ev i ''position'' of Some p \<Rightarrow> p | None \<Rightarrow> answer i)"

text \<open>A send that answers by pushing one \<open>Id\<close> and changes nothing else.\<close>

definition answers :: "SendMessage \<Rightarrow> string \<Rightarrow> Id \<Rightarrow> Evaluation \<Rightarrow> Id \<Rightarrow> bool" where
  "answers sm message receiver ev result =
     (sm message receiver [] ev = pushOperand result ev)"

text \<open>
  A visual whose position can be taken: it is live, a send of the position selector to
  it answers \<open>answer i\<close> by pushing it and changes nothing else when the visual has no
  position attribute, and the position it ends up with can be compared.
\<close>

definition located :: "SendMessage \<Rightarrow> Evaluation \<Rightarrow> (Id \<Rightarrow> Id) \<Rightarrow> Id \<Rightarrow> bool" where
  "located sm ev answer i =
     (isLive ev i
      \<and> (case attributeOf ev i ''position'' of
            Some p \<Rightarrow> True
          | None \<Rightarrow> answers sm ''position'' i ev (answer i))
      \<and> comparable ev (positionOf ev answer i))"

text \<open>The attribute is absent, or what it refers to holds a list of \<open>Id\<close>s.\<close>

definition collectionOrAbsent :: "Evaluation \<Rightarrow> Ref \<Rightarrow> string \<Rightarrow> bool" where
  "collectionOrAbsent ev r key =
     (case attributeOf ev r key of None \<Rightarrow> True | Some l \<Rightarrow> isCollection ev l)"

section \<open>The evaluation after a write\<close>

text \<open>
  The four writes the natives make, as functions on the evaluation: an attribute of a
  live instance set, the inner value of a live instance replaced, a new instance
  registered under the next fresh \<open>Id\<close>, and an \<open>Id\<close> pushed on the operand stack of the
  current frame. A write that the host refuses (the instance is not in the table, there
  is no frame) leaves the evaluation as it is.
\<close>

definition withAttribute :: "Evaluation \<Rightarrow> Ref \<Rightarrow> string \<Rightarrow> Id \<Rightarrow> Evaluation" where
  "withAttribute ev r key valueId =
     (case instances ev r of
        None \<Rightarrow> ev
      | Some obj \<Rightarrow>
          ev\<lparr>instances := (instances ev)(r \<mapsto> obj\<lparr>attributes := (attributes obj)(key \<mapsto> valueId)\<rparr>)\<rparr>)"

definition withInner :: "Evaluation \<Rightarrow> Ref \<Rightarrow> InnerValue \<Rightarrow> Evaluation" where
  "withInner ev r v =
     (case instances ev r of
        None \<Rightarrow> ev
      | Some obj \<Rightarrow> ev\<lparr>instances := (instances ev)(r \<mapsto> obj\<lparr>innerValue := Some v\<rparr>)\<rparr>)"

definition withInstance :: "Evaluation \<Rightarrow> string \<Rightarrow> InnerValue option \<Rightarrow> Evaluation" where
  "withInstance ev fqn inner =
     ev\<lparr>instances := (instances ev)(uuid ev (created ev) \<mapsto>
            \<lparr>moduleFQN = fqn, attributes = Map.empty, innerValue = inner\<rparr>),
        created := Suc (created ev)\<rparr>"

definition withOperand :: "Evaluation \<Rightarrow> Id \<Rightarrow> Evaluation" where
  "withOperand ev i =
     (if frameStack ev = [] then ev
      else ev\<lparr>frameStack := butlast (frameStack ev) @
             [(last (frameStack ev))\<lparr>operandStack := operandStack (last (frameStack ev)) @ [i]\<rparr>]\<rparr>)"

definition moduleOf :: "Evaluation \<Rightarrow> Ref \<Rightarrow> string option" where
  "moduleOf ev r = map_option moduleFQN (instances ev r)"

section \<open>An evaluation to run the natives on\<close>

text \<open>
  One frame with an empty operand stack; the game singleton, running; a sound; three
  visuals, of which \<open>a\<close> and \<open>c\<close> hold their position in a field and \<open>b\<close> answers it
  by its method; positions whose coordinates are the numbers \<open>n1\<close>, \<open>n2\<close> and \<open>n3\<close>.
\<close>

definition runtimeObject ::
  "string \<Rightarrow> (string \<times> Id) list \<Rightarrow> InnerValue option \<Rightarrow> RuntimeObject" where
  "runtimeObject fqn attrs inner =
     \<lparr>moduleFQN = fqn, attributes = map_of attrs, innerValue = inner\<rparr>"

definition exampleInstances :: "(Id \<times> RuntimeObject) list" where
  "exampleInstances =
    [(''game'', runtimeObject ''wollok.game.game'' [(''running'', ''true'')] None),
     (''null'', runtimeObject ''wollok.lang.Object'' [] None),
     (''void'', runtimeObject ''wollok.lang.Object'' [] None),
     (''true'', runtimeObject ''wollok.lang.Boolean'' [] None),
     (''false'', runtimeObject ''wollok.lang.Boolean'' [] None),
     (''sound'', runtimeObject ''wollok.game.Sound'' [] None),
     (''a'', runtimeObject ''example.Visual'' [(''position'', ''pa'')] None),
     (''b'', runtimeObject ''example.Visual'' [] None),
     (''c'', runtimeObject ''example.Visual'' [(''position'', ''pc'')] None),
     (''pa'', runtimeObject ''wollok.game.Position'' [(''x'', ''n1''), (''y'', ''n2'')] None),
     (''pb'', runtimeObject ''wollok.game.Position'' [(''x'', ''n1''), (''y'', ''n2'')] None),
     (''pc'', runtimeObject ''wollok.game.Position'' [(''x'', ''n1''), (''y'', ''n3'')] None),
     (''q'', runtimeObject ''wollok.game.Position'' [(''x'', ''n1''), (''y'', ''n2'')] None),
     (''n1'', runtimeObject ''wollok.lang.Number'' [] (Some (NumberValue 1))),
     (''n2'', runtimeObject ''wollok.lang.Number'' [] (Some (NumberValue 2))),
     (''n3'', runtimeObject ''wollok.lang.Number'' [] (Some (NumberValue 3))),
     (''now'', runtimeObject ''wollok.lang.Number'' [] (Some (NumberValue 1000))),
     (''hello'', runtimeObject ''wollok.lang.String'' [] (Some (StringValue ''hello'')))]"

definition exampleEnvironment :: "(string \<times> LinkedNode) list" where
  "exampleEnvironment =
    [(''wollok.game.game'', \<lparr>node_id = ''game'', node_lookupMethod = (\<lambda>m n. False)\<rparr>),
     (''wollok.io.io'', \<lparr>node_id = ''io'', node_lookupMethod = (\<lambda>m n. m = ''currentTime'' \<and> n = 0)\<rparr>),
     (''wollok.gameMirror.gameMirror'', \<lparr>node_id = ''mirror'', node_lookupMethod = (\<lambda>m n. False)\<rparr>),
     (''example.Visual'', \<lparr>node_id = ''Visual'', node_lookupMethod = (\<lambda>m n. m = ''position'' \<and> n = 0)\<rparr>)]"

definition exampleEvaluation :: Evaluation where
  "exampleEvaluation =
     \<lparr>environment = map_of exampleEnvironment,
      frameStack = [\<lparr>operandStack = []\<rparr>],
      instances = map_of exampleInstances,
      uuid = (\<lambda>n. replicate (Suc n) CHR ''#''),
      created = 0\<rparr>"

text \<open>In the example a send of currentTime answers \<open>now\<close> and a send of position \<open>pb\<close>.\<close>

definition exampleSend :: SendMessage where
  "exampleSend = sendMessage (\<lambda>message receiver args.
     returnM (if message = ''currentTime'' then ''now'' else ''pb''))"

text \<open>The example with the three visuals on the board.\<close>

definition exampleBoard :: Evaluation where
  "exampleBoard =
     exampleEvaluation\<lparr>instances := (instances exampleEvaluation)
        (''game'' \<mapsto> runtimeObject ''wollok.game.game''
                     [(''running'', ''true''), (''visuals'', ''board'')] None,
         ''board'' \<mapsto> runtimeObject ''wollok.lang.List'' []
                     (Some (IdsValue [''a'', ''b'', ''c''])))\<rparr>"

text \<open>The example after the sound has been played and then paused.\<close>

definition examplePaused :: Evaluation where
  "examplePaused = snd (Sound_pause ''sound'' (snd (Sound_play ''sound'' exampleEvaluation)))"

text \<open>The example with the visuals attribute of the game referring to a string.\<close>

definition exampleMalformed :: Evaluation where
  "exampleMalformed =
     exampleEvaluation\<lparr>instances := (instances exampleEvaluation)
        (''game'' \<mapsto> runtimeObject ''wollok.game.game''
                     [(''running'', ''true''), (''visuals'', ''hello'')] None)\<rparr>"

section \<open>Facts about the traversal\<close>

lemma preorder_parameters:
  "concat (map (preorder \<circ> ParameterNode) ps) = map ParameterNode ps"
  by (induction ps) simp_all

lemma preorder_children: "preorder n = n # concat (map preorder (children n))"
  by (cases n rule: preorder.cases) (simp_all add: preorder_parameters)













section \<open>Claims about the validator\<close>



text \<open>
  C2. Validation can throw. A class whose only member is a method without parameters
  makes \<open>canBeCalledWithArgs\<close> read \<^verbatim>\<open>isVarArg\<close> of the missing last parameter, and the
  same happens at a constructor without parameters.
\<close>

theorem validate_zero_parameters_throws:
  "validate (Class ''c'' ''C'' [] [Method ''m'' ''m'' [] (Some (''b'', []))])
     (Environment ''e'' [Package ''p'' ''p''
        [Class ''c'' ''C'' [] [Method ''m'' ''m'' [] (Some (''b'', []))]]])
     = Inl (TypeError ''Cannot read property isVarArg of undefined'')
   \<and> validate (Class ''c'' ''C'' [] [Constructor ''k'' [] (''b'', []) []])
     (Environment ''e'' [Package ''p'' ''p''
        [Class ''c'' ''C'' [] [Constructor ''k'' [] (''b'', []) []]]])
     = Inl (TypeError ''Cannot read property isVarArg of undefined'')"
  by code_simp

text \<open>
  C3. A class whose only member is a field, so that it has no two methods at all, is
  reported under methodsHaveDistinctSignatures: the rule asks every member to be a
  method.
\<close>

theorem methodsHaveDistinctSignatures_field_only:
  "validate (Class ''c'' ''C'' [] [Field ''f'' ''x'' []])
     (Environment ''e'' [Package ''p'' ''p'' [Class ''c'' ''C'' [] [Field ''f'' ''x'' []]]])
     = Inr [Problem ''methodsHaveDistinctSignatures'' Error
              (Class ''c'' ''C'' [] [Field ''f'' ''x'' []])]"
  by code_simp

text \<open>
  C4. A singleton inside an expression, whose parent is a Literal and not a Package, is
  reported under singletonIsNotUnnamed whether it has a name or not: the rule asks the
  parent to be a Package and the name to be present.
\<close>

theorem singletonIsNotUnnamed_in_expression:
  "validate (Singleton ''s'' None [] [])
     (Environment ''e'' [Package ''p'' ''p'' [Class ''c'' ''C'' []
        [Method ''m'' ''m'' [] (Some (''b'',
           [Return ''r'' [Literal ''l'' [Singleton ''s'' None [] []]]]))]]])
     = Inr [Problem ''nameIsCamelCase'' Warning (Singleton ''s'' None [] []),
            Problem ''singletonIsNotUnnamed'' Error (Singleton ''s'' None [] [])]
   \<and> validate (Singleton ''s'' (Some ''pepita'') [] [])
     (Environment ''e'' [Package ''p'' ''p'' [Class ''c'' ''C'' []
        [Method ''m'' ''m'' [] (Some (''b'',
           [Return ''r'' [Literal ''l'' [Singleton ''s'' (Some ''pepita'') [] []]]]))]]])
     = Inr [Problem ''singletonIsNotUnnamed'' Error (Singleton ''s'' (Some ''pepita'') [] [])]"
  by code_simp

text \<open>
  C6. A method with one parameter that is not a varArg is reported under
  onlyLastParameterIsVarArg: \<^verbatim>\<open>findIndex\<close> answers -1 and 0 is not the length.
\<close>

theorem onlyLastParameterIsVarArg_without_varArg:
  "validate (Method ''m'' ''m'' [Parameter ''p'' ''a'' False] (Some (''b'', [])))
     (Environment ''e'' [])
     = Inr [Problem ''onlyLastParameterIsVarArg'' Error
              (Method ''m'' ''m'' [Parameter ''p'' ''a'' False] (Some (''b'', [])))]"
  by code_simp

section \<open>Facts about the natives\<close>

lemmas monad_defs = bindM_def thenM_def returnM_def throw_def
lemmas obs_defs = attributeOf_def innerOf_def isLive_def moduleOf_def

subsection \<open>observations after writes\<close>

lemma withAttribute_obs [simp]:
  "attributeOf (withAttribute ev r k v) r' k' =
     (if r' = r \<and> k' = k \<and> isLive ev r then Some v else attributeOf ev r' k')"
  "innerOf (withAttribute ev r k v) i = innerOf ev i"
  "isLive (withAttribute ev r k v) i = isLive ev i"
  "moduleOf (withAttribute ev r k v) i = moduleOf ev i"
  "frameStack (withAttribute ev r k v) = frameStack ev"
  "environment (withAttribute ev r k v) = environment ev"
  "uuid (withAttribute ev r k v) = uuid ev"
  "created (withAttribute ev r k v) = created ev"
  by (auto simp: withAttribute_def obs_defs split: option.splits)

lemma withInner_obs [simp]:
  "attributeOf (withInner ev r v) r' k' = attributeOf ev r' k'"
  "innerOf (withInner ev r v) i = (if i = r \<and> isLive ev r then Some v else innerOf ev i)"
  "isLive (withInner ev r v) i = isLive ev i"
  "moduleOf (withInner ev r v) i = moduleOf ev i"
  "frameStack (withInner ev r v) = frameStack ev"
  "environment (withInner ev r v) = environment ev"
  "uuid (withInner ev r v) = uuid ev"
  "created (withInner ev r v) = created ev"
  by (auto simp: withInner_def obs_defs split: option.splits)

lemma withInstance_obs [simp]:
  "attributeOf (withInstance ev fqn inner) r' k' =
     (if r' = uuid ev (created ev) then None else attributeOf ev r' k')"
  "innerOf (withInstance ev fqn inner) i =
     (if i = uuid ev (created ev) then inner else innerOf ev i)"
  "isLive (withInstance ev fqn inner) i = (i = uuid ev (created ev) \<or> isLive ev i)"
  "moduleOf (withInstance ev fqn inner) i =
     (if i = uuid ev (created ev) then Some fqn else moduleOf ev i)"
  "frameStack (withInstance ev fqn inner) = frameStack ev"
  "environment (withInstance ev fqn inner) = environment ev"
  "uuid (withInstance ev fqn inner) = uuid ev"
  "created (withInstance ev fqn inner) = Suc (created ev)"
  by (auto simp: withInstance_def obs_defs split: option.splits)

lemma withOperand_obs [simp]:
  "attributeOf (withOperand ev x) r' k' = attributeOf ev r' k'"
  "innerOf (withOperand ev x) i = innerOf ev i"
  "isLive (withOperand ev x) i = isLive ev i"
  "moduleOf (withOperand ev x) i = moduleOf ev i"
  "environment (withOperand ev x) = environment ev"
  "uuid (withOperand ev x) = uuid ev"
  "created (withOperand ev x) = created ev"
  "(frameStack (withOperand ev x) = []) = (frameStack ev = [])"
  "length (frameStack (withOperand ev x)) = length (frameStack ev)"
  by (auto simp: withOperand_def obs_defs split: option.splits)

lemma withOperand_top [simp]:
  "frameStack ev \<noteq> [] \<Longrightarrow> topOperands (withOperand ev x) = topOperands ev @ [x]"
  by (simp add: withOperand_def topOperands_def)

lemma topOperands_writes [simp]:
  "topOperands (withAttribute ev r k v) = topOperands ev"
  "topOperands (withInner ev r w) = topOperands ev"
  "topOperands (withInstance ev fqn inner) = topOperands ev"
  by (simp_all add: topOperands_def)

subsection \<open>primitives\<close>

lemma createInstance_eq:
  "createInstance fqn inner ev = (Inr (uuid ev (created ev)), withInstance ev fqn inner)"
  by (simp add: createInstance_def withInstance_def)

lemma RuntimeObject_set_eq:
  "RuntimeObject_set r k v ev =
     (if isLive ev r then Inr () else Inl (RangeError ''Access to undefined instance''),
      withAttribute ev r k v)"
  by (simp add: RuntimeObject_set_def withAttribute_def deref_def monad_defs obs_defs
      split: option.splits)

lemma set_innerValue_eq:
  "set_innerValue r v ev =
     (if isLive ev r then Inr () else Inl (RangeError ''Access to undefined instance''),
      withInner ev r v)"
  by (simp add: set_innerValue_def withInner_def deref_def monad_defs obs_defs
      split: option.splits)

lemma pushOperand_eq:
  "pushOperand i ev =
     (if frameStack ev = [] then Inl (TypeError ''Cannot read property pushOperand of undefined'')
      else Inr (), withOperand ev i)"
  by (cases "frameStack ev") (simp_all add: pushOperand_def withOperand_def)

lemma instance_of_eq:
  "instance_of i ev =
     (if isLive ev i then Inr i else Inl (RangeError ''Access to undefined instance''), ev)"
  by (simp add: instance_of_def obs_defs split: option.splits)

lemma RuntimeObject_get_eq:
  "isLive ev r \<Longrightarrow> liveAttribute ev r key \<Longrightarrow>
     RuntimeObject_get r key ev = (Inr (attributeOf ev r key), ev)"
  by (auto simp: RuntimeObject_get_def liveAttribute_def deref_def instance_of_def
      monad_defs obs_defs split: option.splits)

lemma assertIsCollection_eq:
  "isLive ev l \<Longrightarrow>
     assertIsCollection l ev =
       (if isCollection ev l then Inr (elements ev l)
        else Inl (TypeError ''Malformed Runtime Object: Collection inner value should be a List<Id>''),
        ev)"
  by (auto simp: assertIsCollection_def isCollection_def elements_def deref_def
      monad_defs obs_defs split: option.splits InnerValue.splits)

lemma statusInnerValue_eq:
  "isLive ev self \<Longrightarrow> liveAttribute ev self ''status'' \<Longrightarrow>
     statusInnerValue self ev = (Inr (statusOf ev self), ev)"
  by (auto simp: statusInnerValue_def statusOf_def RuntimeObject_get_eq liveAttribute_def
      deref_def monad_defs obs_defs split: option.splits)

lemma wGame_eq:
  "environment ev ''wollok.game.game'' = Some gnode \<Longrightarrow> isLive ev (node_id gnode) \<Longrightarrow>
     wGame ev = (Inr (node_id gnode), ev)"
  by (simp add: wGame_def getNodeByFQN_def instance_of_eq monad_defs)

lemmas derived_defs = statusOf_def collectionOf_def elements_def isCollection_def liveAttribute_def

lemma removeFromInnerCollection_eq:
  assumes "isLive ev w" and "liveAttribute ev w key"
    and "\<forall>l. attributeOf ev w key = Some l \<longrightarrow> isCollection ev l"
  shows "removeFromInnerCollection w x key ev =
     (Inr (), case attributeOf ev w key of
                None \<Rightarrow> ev
              | Some l \<Rightarrow> withInner ev l (IdsValue (filter (\<lambda>i. i \<noteq> x) (elements ev l))))"
proof (cases "attributeOf ev w key")
  case None
  with assms show ?thesis
    by (simp add: removeFromInnerCollection_def RuntimeObject_get_eq monad_defs)
next
  case (Some l)
  with assms have "isLive ev l" "isCollection ev l"
    by (simp_all add: liveAttribute_def)
  with Some assms show ?thesis
    by (simp add: removeFromInnerCollection_def RuntimeObject_get_eq assertIsCollection_eq
        set_innerValue_eq monad_defs)
qed

lemma addToInnerCollection_present:
  assumes "isLive ev w" and "liveAttribute ev w key" and "attributeOf ev w key = Some l"
    and "isLive ev x"
  shows "addToInnerCollection w x key ev =
     (if \<not> isCollection ev l
      then (Inl (TypeError ''Malformed Runtime Object: Collection inner value should be a List<Id>''), ev)
      else if x \<in> set (elements ev l) then (Inl (TypeError (the (moduleOf ev x))), ev)
      else (Inr (), withInner ev l (IdsValue (elements ev l @ [x]))))"
proof -
  from assms have l: "isLive ev l" by (simp add: liveAttribute_def)
  from assms(4) have "deref x ev = (Inr (the (instances ev x)), ev)"
    by (auto simp: deref_def isLive_def)
  moreover from assms(4) have "the (moduleOf ev x) = moduleFQN (the (instances ev x))"
    by (auto simp: moduleOf_def isLive_def)
  ultimately show ?thesis
    using assms l
    by (simp add: addToInnerCollection_def RuntimeObject_get_eq assertIsCollection_eq
        set_innerValue_eq monad_defs)
qed

lemma addToInnerCollection_absent:
  assumes "isLive ev w" and "attributeOf ev w key = None"
    and "\<not> isLive ev (uuid ev (created ev))"
  shows "addToInnerCollection w x key ev =
     (Inr (), withInner (withAttribute (withInstance ev ''wollok.lang.List'' (Some (IdsValue [])))
                 w key (uuid ev (created ev)))
               (uuid ev (created ev)) (IdsValue [x]))"
proof -
  let ?n = "uuid ev (created ev)"
  let ?ev1 = "withInstance ev ''wollok.lang.List'' (Some (IdsValue []))"
  let ?ev2 = "withAttribute ?ev1 w key ?n"
  from assms have wn: "w \<noteq> ?n" by auto
  have first: "RuntimeObject_get w key ev = (Inr None, ev)"
    using assms by (simp add: RuntimeObject_get_eq liveAttribute_def)
  have live2: "isLive ?ev2 w" "liveAttribute ?ev2 w key" "attributeOf ?ev2 w key = Some ?n"
    using assms wn by (simp_all add: liveAttribute_def)
  have second: "RuntimeObject_get w key ?ev2 = (Inr (Some ?n), ?ev2)"
    using live2 by (simp add: RuntimeObject_get_eq)
  have coll: "isLive ?ev2 ?n" "isCollection ?ev2 ?n" "elements ?ev2 ?n = []"
    by (simp_all add: isCollection_def elements_def)
  show ?thesis
    using assms(1) wn
    by (simp add: addToInnerCollection_def first second coll assertIsCollection_eq
        set_innerValue_eq createInstance_eq RuntimeObject_set_eq newList_def monad_defs)
qed

lemma stop_cases:
  assumes frame: "frameStack ev \<noteq> []"
    and game: "environment ev ''wollok.game.game'' = Some gnode" "node_id gnode = g"
    and live: "isLive ev g" "isLive ev self"
      "liveAttribute ev self ''status''" "liveAttribute ev g ''sounds''"
    and coll: "\<forall>l. attributeOf ev g ''sounds'' = Some l \<longrightarrow> isCollection ev l"
    and fresh: "\<not> isLive ev (uuid ev (created ev))"
  shows "(statusOf ev self \<noteq> Some (StringValue ''played'') \<longrightarrow>
            Sound_stop self ev =
              (Inl (HostError ''You cannot stop a sound that is not played''), ev))
       \<and> (statusOf ev self = Some (StringValue ''played'') \<longrightarrow>
            fst (Sound_stop self ev) = Inr ()
            \<and> statusOf (snd (Sound_stop self ev)) self = Some (StringValue ''stopped'')
            \<and> collectionOf (snd (Sound_stop self ev)) g ''sounds''
                = filter (\<lambda>i. i \<noteq> self) (collectionOf ev g ''sounds'')
            \<and> topOperands (snd (Sound_stop self ev)) = topOperands ev @ [VOID_ID])"
proof (intro conjI impI)
  assume "statusOf ev self \<noteq> Some (StringValue ''played'')"
  with live show "Sound_stop self ev =
      (Inl (HostError ''You cannot stop a sound that is not played''), ev)"
    by (simp add: Sound_stop_def statusInnerValue_eq monad_defs)
next
  assume played: "statusOf ev self = Some (StringValue ''played'')"
  let ?n = "uuid ev (created ev)"
  let ?ev1 = "withInstance ev ''wollok.lang.String'' (Some (StringValue ''stopped''))"
  let ?ev2 = "withAttribute ?ev1 self ''status'' ?n"
  let ?ev3 = "case attributeOf ev g ''sounds'' of
                None \<Rightarrow> ?ev2
              | Some l \<Rightarrow> withInner ?ev2 l (IdsValue (filter (\<lambda>i. i \<noteq> self) (elements ?ev2 l)))"
  from live fresh have ne: "self \<noteq> ?n" "g \<noteq> ?n" by auto
  have sounds2: "attributeOf ?ev2 g ''sounds'' = attributeOf ev g ''sounds''"
    using ne by simp
  have liveSounds: "\<And>l. attributeOf ev g ''sounds'' = Some l \<Longrightarrow> isLive ev l \<and> l \<noteq> ?n"
    using live(4) fresh by (auto simp: liveAttribute_def)
  have pre2: "isLive ?ev2 g" "liveAttribute ?ev2 g ''sounds''"
    "\<forall>l. attributeOf ?ev2 g ''sounds'' = Some l \<longrightarrow> isCollection ?ev2 l"
    using live coll ne liveSounds
    by (auto simp: liveAttribute_def isCollection_def split: option.splits)
  have remove: "removeSound g self ?ev2 = (Inr (), ?ev3)"
    unfolding removeSound_def
    using ne by (simp add: removeFromInnerCollection_eq [OF pre2] sounds2)
  have game2: "wGame ?ev2 = (Inr g, ?ev2)"
    using wGame_eq [of ?ev2 gnode] game live by simp
  have frame3: "frameStack ?ev3 \<noteq> []"
    using frame by (simp split: option.splits)
  have run: "Sound_stop self ev = (Inr (), withOperand ?ev3 VOID_ID)"
    using live played ne frame3
    by (simp add: Sound_stop_def statusInnerValue_eq newWString_def createInstance_eq
        RuntimeObject_set_eq game2 remove returnVoid_def returnValue_def pushOperand_eq
        monad_defs)
  show "fst (Sound_stop self ev) = Inr ()"
    by (simp add: run)
  show "statusOf (snd (Sound_stop self ev)) self = Some (StringValue ''stopped'')"
    using live ne liveSounds
    by (auto simp: run statusOf_def split: option.splits)
  show "collectionOf (snd (Sound_stop self ev)) g ''sounds''
          = filter (\<lambda>i. i \<noteq> self) (collectionOf ev g ''sounds'')"
    using live ne liveSounds
    by (auto simp: run collectionOf_def elements_def split: option.splits)
  show "topOperands (snd (Sound_stop self ev)) = topOperands ev @ [VOID_ID]"
    using frame3 by (simp add: run split: option.splits)
qed

lemma play_cases:
  assumes frame: "frameStack ev \<noteq> []"
    and game: "environment ev ''wollok.game.game'' = Some gnode" "node_id gnode = g"
    and live: "isLive ev g" "moduleOf ev self = Some fqn"
      "liveAttribute ev g ''running''" "liveAttribute ev g ''sounds''"
    and coll: "\<forall>l. attributeOf ev g ''sounds'' = Some l \<longrightarrow> isCollection ev l"
    and fresh: "\<not> isLive ev (uuid ev (created ev))" "\<not> isLive ev (uuid ev (Suc (created ev)))"
      "uuid ev (created ev) \<noteq> uuid ev (Suc (created ev))"
  shows "(attributeOf ev g ''running'' \<noteq> Some TRUE_ID \<longrightarrow>
            Sound_play self ev =
              (Inl (HostError ''You cannot play a sound if game has not started''), ev))
       \<and> (attributeOf ev g ''running'' = Some TRUE_ID \<longrightarrow>
            self \<in> set (collectionOf ev g ''sounds'') \<longrightarrow>
            fst (Sound_play self ev) = Inl (TypeError fqn))
       \<and> (attributeOf ev g ''running'' = Some TRUE_ID \<longrightarrow>
            self \<notin> set (collectionOf ev g ''sounds'') \<longrightarrow>
            fst (Sound_play self ev) = Inr ()
            \<and> statusOf (snd (Sound_play self ev)) self = Some (StringValue ''played'')
            \<and> collectionOf (snd (Sound_play self ev)) g ''sounds''
                = collectionOf ev g ''sounds'' @ [self]
            \<and> topOperands (snd (Sound_play self ev)) = topOperands ev @ [VOID_ID])"
proof -
  let ?n = "uuid ev (created ev)"
  let ?m = "uuid ev (Suc (created ev))"
  let ?ev1 = "withInstance ev ''wollok.lang.String'' (Some (StringValue ''played''))"
  let ?ev2 = "withAttribute ?ev1 self ''status'' ?n"
  from live(2) have self: "isLive ev self"
    by (auto simp: moduleOf_def isLive_def)
  from live self fresh have ne: "self \<noteq> ?n" "g \<noteq> ?n" "self \<noteq> ?m" "g \<noteq> ?m" by auto
  have game0: "wGame ev = (Inr g, ev)"
    using wGame_eq [of ev gnode] game live by simp
  have game2: "wGame ?ev2 = (Inr g, ?ev2)"
    using wGame_eq [of ?ev2 gnode] game live by simp
  have running: "RuntimeObject_get g ''running'' ev = (Inr (attributeOf ev g ''running''), ev)"
    using live by (simp add: RuntimeObject_get_eq)
  have sounds2: "attributeOf ?ev2 g ''sounds'' = attributeOf ev g ''sounds''"
    using ne by simp
  have start: "attributeOf ev g ''running'' = Some TRUE_ID \<Longrightarrow>
      Sound_play self ev = bindM (addSound g self) (\<lambda>u. returnVoid) ?ev2"
    using self ne
    by (simp add: Sound_play_def game0 running newWString_def createInstance_eq
        RuntimeObject_set_eq game2 monad_defs)
  have stopped: "attributeOf ev g ''running'' \<noteq> Some TRUE_ID \<Longrightarrow>
      Sound_play self ev =
        (Inl (HostError ''You cannot play a sound if game has not started''), ev)"
    by (simp add: Sound_play_def game0 running monad_defs)
  have dup: "fst (Sound_play self ev) = Inl (TypeError fqn)"
    if run: "attributeOf ev g ''running'' = Some TRUE_ID"
      and mem: "self \<in> set (collectionOf ev g ''sounds'')"
  proof -
    from mem obtain l where l: "attributeOf ev g ''sounds'' = Some l"
      and inl: "self \<in> set (elements ev l)"
      by (cases "attributeOf ev g ''sounds''") (auto simp: collectionOf_def)
    from l live(4) fresh have ll: "isLive ev l" "l \<noteq> ?n"
      by (auto simp: liveAttribute_def)
    from l coll have c: "isCollection ev l" by simp
    have pre: "isLive ?ev2 g" "liveAttribute ?ev2 g ''sounds''"
      "attributeOf ?ev2 g ''sounds'' = Some l" "isLive ?ev2 self"
      using live self ne l ll by (simp_all add: liveAttribute_def)
    have "addSound g self ?ev2 = (Inl (TypeError fqn), ?ev2)"
      unfolding addSound_def
      using c inl ll live(2) ne
      by (simp add: addToInnerCollection_present [OF pre] isCollection_def elements_def)
    then show ?thesis
      by (simp add: start [OF run] monad_defs)
  qed
  have ok: "fst (Sound_play self ev) = Inr ()
            \<and> statusOf (snd (Sound_play self ev)) self = Some (StringValue ''played'')
            \<and> collectionOf (snd (Sound_play self ev)) g ''sounds''
                = collectionOf ev g ''sounds'' @ [self]
            \<and> topOperands (snd (Sound_play self ev)) = topOperands ev @ [VOID_ID]"
    if run: "attributeOf ev g ''running'' = Some TRUE_ID"
      and nmem: "self \<notin> set (collectionOf ev g ''sounds'')"
  proof (cases "attributeOf ev g ''sounds''")
    case None
    let ?ev3 = "withInner (withAttribute (withInstance ?ev2 ''wollok.lang.List'' (Some (IdsValue [])))
                 g ''sounds'' ?m) ?m (IdsValue [self])"
    have pre: "isLive ?ev2 g" "attributeOf ?ev2 g ''sounds'' = None"
      "\<not> isLive ?ev2 (uuid ?ev2 (created ?ev2))"
      using live None ne fresh by simp_all
    have add: "addSound g self ?ev2 = (Inr (), ?ev3)"
      unfolding addSound_def
      using addToInnerCollection_absent [OF pre, of self] by simp
    have res: "Sound_play self ev = (Inr (), withOperand ?ev3 VOID_ID)"
      using frame
      by (simp add: start [OF run] add returnVoid_def returnValue_def pushOperand_eq monad_defs)
    show ?thesis
      using frame live self ne fresh None
      by (auto simp: res statusOf_def collectionOf_def elements_def)
  next
    case (Some l)
    let ?ev3 = "withInner ?ev2 l (IdsValue (elements ?ev2 l @ [self]))"
    from Some nmem have nin: "self \<notin> set (elements ev l)"
      by (simp add: collectionOf_def)
    from Some live(4) fresh have ll: "isLive ev l" "l \<noteq> ?n"
      by (auto simp: liveAttribute_def)
    from Some coll have c: "isCollection ev l" by simp
    have pre: "isLive ?ev2 g" "liveAttribute ?ev2 g ''sounds''"
      "attributeOf ?ev2 g ''sounds'' = Some l" "isLive ?ev2 self"
      using live self ne Some ll by (simp_all add: liveAttribute_def)
    have add: "addSound g self ?ev2 = (Inr (), ?ev3)"
      unfolding addSound_def
      using c nin ll ne
      by (simp add: addToInnerCollection_present [OF pre] isCollection_def elements_def)
    have res: "Sound_play self ev = (Inr (), withOperand ?ev3 VOID_ID)"
      using frame
      by (simp add: start [OF run] add returnVoid_def returnValue_def pushOperand_eq monad_defs)
    show ?thesis
      using frame live self ne ll Some
      by (auto simp: res statusOf_def collectionOf_def elements_def)
  qed
  from stopped dup ok show ?thesis by blast
qed

lemma pause_cases:
  assumes frame: "frameStack ev \<noteq> []"
    and live: "isLive ev self" "liveAttribute ev self ''status''"
    and fresh: "\<not> isLive ev (uuid ev (created ev))"
  shows "(statusOf ev self \<noteq> Some (StringValue ''played'') \<longrightarrow>
            Sound_pause self ev =
              (Inl (HostError ''You cannot pause a sound that is not played''), ev))
       \<and> (statusOf ev self = Some (StringValue ''played'') \<longrightarrow>
            fst (Sound_pause self ev) = Inr ()
            \<and> statusOf (snd (Sound_pause self ev)) self = Some (StringValue ''paused'')
            \<and> topOperands (snd (Sound_pause self ev)) = topOperands ev @ [VOID_ID])"
  using assms
  by (auto simp: Sound_pause_def statusInnerValue_eq newWString_def createInstance_eq
      RuntimeObject_set_eq returnVoid_def returnValue_def pushOperand_eq monad_defs statusOf_def)

lemma resume_cases:
  assumes frame: "frameStack ev \<noteq> []"
    and live: "isLive ev self" "liveAttribute ev self ''status''"
    and fresh: "\<not> isLive ev (uuid ev (created ev))"
  shows "(statusOf ev self \<noteq> Some (StringValue ''paused'') \<longrightarrow>
            Sound_resume self ev =
              (Inl (HostError ''You cannot resume a sound that is not paused''), ev))
       \<and> (statusOf ev self = Some (StringValue ''paused'') \<longrightarrow>
            fst (Sound_resume self ev) = Inr ()
            \<and> statusOf (snd (Sound_resume self ev)) self = Some (StringValue ''played'')
            \<and> topOperands (snd (Sound_resume self ev)) = topOperands ev @ [VOID_ID])"
  using assms
  by (auto simp: Sound_resume_def statusInnerValue_eq newWString_def createInstance_eq
      RuntimeObject_set_eq returnVoid_def returnValue_def pushOperand_eq monad_defs statusOf_def)

lemma lookupMethod_eq:
  "instances ev r = Some obj \<Longrightarrow> environment ev (moduleFQN obj) = Some node \<Longrightarrow>
     lookupMethod r message ev = (Inr (node_lookupMethod node message 0), ev)"
  by (simp add: lookupMethod_def deref_def getNodeByFQN_def monad_defs)

lemma addVisual_cases:
  assumes frame: "frameStack ev \<noteq> []"
    and self: "isLive ev self" and vis: "instances ev visual = Some vobj"
    and module: "environment ev (moduleFQN vobj) = Some node"
    and live: "liveAttribute ev self ''visuals''"
    and fresh: "\<not> isLive ev (uuid ev (created ev))"
  shows "((\<exists>m. fst (game_addVisual self visual ev) = Inl (TypeError m)) \<longleftrightarrow>
           (visual = NULL_ID \<or> \<not> node_lookupMethod node ''position'' 0
            \<or> (\<exists>l. attributeOf ev self ''visuals'' = Some l \<and> \<not> isCollection ev l)
            \<or> visual \<in> set (collectionOf ev self ''visuals'')))
       \<and> (\<not> (visual = NULL_ID \<or> \<not> node_lookupMethod node ''position'' 0
            \<or> (\<exists>l. attributeOf ev self ''visuals'' = Some l \<and> \<not> isCollection ev l)
            \<or> visual \<in> set (collectionOf ev self ''visuals'')) \<longrightarrow>
           fst (game_addVisual self visual ev) = Inr ()
           \<and> collectionOf (snd (game_addVisual self visual ev)) self ''visuals''
               = collectionOf ev self ''visuals'' @ [visual]
           \<and> topOperands (snd (game_addVisual self visual ev)) = topOperands ev @ [VOID_ID])"
proof (cases "attributeOf ev self ''visuals''")
  case None
  from vis have v: "isLive ev visual" by (simp add: isLive_def)
  from self fresh have ne: "self \<noteq> uuid ev (created ev)" by auto
  show ?thesis
    using frame self v ne None
    by (auto simp: game_addVisual_def addVisual_def checkNotNull_def
        lookupMethod_eq [OF vis module] addToInnerCollection_absent [OF self None fresh]
        returnVoid_def returnValue_def pushOperand_eq monad_defs collectionOf_def elements_def)
next
  case (Some l)
  from vis have v: "isLive ev visual" by (simp add: isLive_def)
  from Some live have ll: "isLive ev l" by (simp add: liveAttribute_def)
  show ?thesis
    using frame self v ll Some
    by (auto simp: game_addVisual_def addVisual_def checkNotNull_def
        lookupMethod_eq [OF vis module] addToInnerCollection_present [OF self live Some v]
        returnVoid_def returnValue_def pushOperand_eq monad_defs collectionOf_def elements_def
        isCollection_def split: option.splits InnerValue.splits)
qed

lemma addVisualIn_throws:
  assumes "visual \<noteq> NULL_ID" and "position \<noteq> NULL_ID"
    and vis: "moduleOf ev visual = Some fqn" and self: "isLive ev self"
    and l: "attributeOf ev self ''visuals'' = Some l"
    and ids: "innerOf ev l = Some (IdsValue ids)"
    and mem: "visual \<in> set ids"
  shows "game_addVisualIn self visual position ev =
           (Inl (TypeError fqn), withAttribute ev visual ''position'' position)"
proof -
  let ?ev1 = "withAttribute ev visual ''position'' position"
  from vis have v: "isLive ev visual" by (auto simp: moduleOf_def isLive_def)
  from ids have ll: "isLive ev l" by (auto simp: innerOf_def isLive_def split: option.splits)
  have pre: "isLive ?ev1 self" "liveAttribute ?ev1 self ''visuals''"
      "attributeOf ?ev1 self ''visuals'' = Some l" "isLive ?ev1 visual"
    using self v l ll by (simp_all add: liveAttribute_def)
  show ?thesis
    using assms v
    by (simp add: game_addVisualIn_def addVisual_def checkNotNull_def RuntimeObject_set_eq
        addToInnerCollection_present [OF pre] isCollection_def elements_def monad_defs)
qed


lemma nth_butlast_snoc: "fs \<noteq> [] \<Longrightarrow> (butlast fs @ [g]) ! (length fs - Suc 0) = g"
  by (simp add: nth_append)

lemma update_butlast_snoc:
  "fs \<noteq> [] \<Longrightarrow> (butlast fs @ [g])[length fs - Suc 0 := h] = butlast fs @ [h]"
  by (simp add: list_update_append)

lemma currentFrame_eq:
  "frameStack ev \<noteq> [] \<Longrightarrow> currentFrame ev = (Inr (Some (length (frameStack ev) - 1)), ev)"
  by (simp add: currentFrame_def)

lemma pop_push:
  assumes "frameStack ev \<noteq> []"
  shows "popOperand (Some (length (frameStack ev) - Suc 0)) (withOperand ev i) = (Inr (Some i), ev)"
proof -
  have "ev\<lparr>frameStack := butlast (frameStack ev) @ [last (frameStack ev)]\<rparr> = ev"
    using assms by simp
  then show ?thesis
    using assms
    by (simp add: popOperand_def withOperand_def nth_butlast_snoc update_butlast_snoc)
qed

lemma assertIsNumber_eq:
  "innerOf ev t = Some (NumberValue n) \<Longrightarrow> assertIsNumber t ev = (Inr n, ev)"
  by (auto simp: assertIsNumber_def deref_def innerOf_def monad_defs split: option.splits)

lemma set_helper_eq:
  "isLive ev r \<Longrightarrow> frameStack ev \<noteq> [] \<Longrightarrow>
     set_helper r key v ev = (Inr (), withOperand (withAttribute ev r key v) VOID_ID)"
  by (simp add: set_helper_def RuntimeObject_set_eq returnVoid_def returnValue_def
      pushOperand_eq monad_defs)

lemma say_twice:
  assumes frame: "frameStack ev \<noteq> []"
    and io: "environment ev ''wollok.io.io'' = Some ioNode"
    and send: "sm ''currentTime'' (node_id ioNode) [] ev = pushOperand t ev"
    and time: "innerOf ev t = Some (NumberValue n)"
    and visual: "isLive ev visual"
  shows "fst (game_say sm addDoubles self visual message ev) = Inr ()
       \<and> topOperands (snd (game_say sm addDoubles self visual message ev))
           = topOperands ev @ [VOID_ID, VOID_ID]"
proof -
  let ?ev1 = "withInstance ev ''wollok.lang.Number'' (Some (NumberValue (addDoubles n 2000)))"
  let ?new = "uuid ev (created ev)"
  let ?ev2 = "withOperand (withAttribute ?ev1 visual ''message'' message) VOID_ID"
  let ?ev3 = "withOperand (withAttribute ?ev2 visual ''messageTime'' ?new) VOID_ID"
  from time have t: "isLive ev t"
    by (auto simp: innerOf_def isLive_def split: option.splits)
  have io': "io ev = (Inr (node_id ioNode), ev)"
    using io by (simp add: io_def getNodeByFQN_def monad_defs)
  have send': "sm ''currentTime'' (node_id ioNode) [] ev = (Inr (), withOperand ev t)"
    using frame by (simp add: send pushOperand_eq)
  have first: "set_helper visual ''message'' message ?ev1 = (Inr (), ?ev2)"
    using visual frame by (simp add: set_helper_eq)
  have second: "set_helper visual ''messageTime'' ?new ?ev2 = (Inr (), ?ev3)"
    using visual frame by (simp add: set_helper_eq)
  have run: "game_say sm addDoubles self visual message ev = (Inr (), ?ev3)"
    using frame t
    by (simp add: game_say_def currentFrame_eq io' send' pop_push instance_opt_def
        instance_of_eq assertIsNumber_eq [OF time] createInstance_eq first second monad_defs)
  show ?thesis
    using frame by (simp add: run)
qed

lemma getPosition_eq:
  assumes frame: "frameStack ev \<noteq> []" and loc: "located sm ev answer i"
  shows "getPosition sm i ev = (Inr (positionOf ev answer i), ev)"
proof (cases "attributeOf ev i ''position''")
  case None
  from loc None have i: "isLive ev i" and p: "isLive ev (answer i)"
    and send: "sm ''position'' i [] ev = pushOperand (answer i) ev"
    by (simp_all add: located_def comparable_def positionOf_def answers_def)
  from i None have get: "RuntimeObject_get i ''position'' ev = (Inr None, ev)"
    by (simp add: RuntimeObject_get_eq liveAttribute_def)
  show ?thesis
    using frame i p None
    by (simp add: getPosition_def instance_of_eq get currentFrame_eq send pushOperand_eq
        pop_push instance_opt_def positionOf_def monad_defs)
next
  case (Some p)
  from loc Some have i: "isLive ev i" and p: "isLive ev p"
    by (simp_all add: located_def comparable_def positionOf_def)
  from i p Some have get: "RuntimeObject_get i ''position'' ev = (Inr (Some p), ev)"
    by (simp add: RuntimeObject_get_eq liveAttribute_def)
  show ?thesis
    using i Some
    by (simp add: getPosition_def instance_of_eq get positionOf_def monad_defs)
qed

lemma samePosition_eq:
  assumes frame: "frameStack ev \<noteq> []" and loc: "located sm ev answer i"
    and pos: "comparable ev position"
  shows "samePosition sm position i ev =
           (Inr (colocated ev position (positionOf ev answer i)), ev)"
proof -
  from loc have q: "comparable ev (positionOf ev answer i)"
    by (simp add: located_def)
  show ?thesis
    using pos q
    by (simp add: samePosition_def getPosition_eq [OF frame loc] RuntimeObject_get_eq
        comparable_def colocated_def monad_defs)
qed

lemma filterM_pure:
  "(\<And>x. x \<in> set xs \<Longrightarrow> p x ev = (Inr (q x), ev)) \<Longrightarrow>
     filterM p xs ev = (Inr (filter q xs), ev)"
  by (induction xs) (simp_all add: monad_defs)

lemma getObjectsIn_eq:
  assumes frame: "frameStack ev \<noteq> []" and self: "isLive ev self"
    and l: "attributeOf ev self ''visuals'' = Some l"
    and ids: "innerOf ev l = Some (IdsValue ids)"
    and loc: "\<forall>i\<in>set ids. located sm ev answer i"
    and pos: "comparable ev position"
  shows "game_getObjectsIn sm self position ev =
     (Inr (), withOperand
        (withInstance ev ''wollok.lang.List''
           (Some (IdsValue (filter (\<lambda>i. colocated ev position (positionOf ev answer i)) ids))))
        (uuid ev (created ev)))"
proof -
  from ids have ll: "isLive ev l" "isCollection ev l" "elements ev l = ids"
    by (auto simp: innerOf_def isLive_def isCollection_def elements_def split: option.splits)
  from self l ll have get: "RuntimeObject_get self ''visuals'' ev = (Inr (Some l), ev)"
    by (simp add: RuntimeObject_get_eq liveAttribute_def)
  have filt: "filterM (samePosition sm position) ids ev =
      (Inr (filter (\<lambda>i. colocated ev position (positionOf ev answer i)) ids), ev)"
    using loc by (intro filterM_pure samePosition_eq [OF frame _ pos]) simp
  show ?thesis
    using frame ll
    by (simp add: game_getObjectsIn_def get assertIsCollection_eq filt newList_def
        createInstance_eq returnValue_def pushOperand_eq monad_defs)
qed

lemma colliders_eq:
  assumes frame: "frameStack ev \<noteq> []" and self: "isLive ev self"
    and l: "attributeOf ev self ''visuals'' = Some l"
    and ids: "innerOf ev l = Some (IdsValue ids)"
    and loc: "\<forall>i\<in>set ids. located sm ev answer i"
    and nonnull: "visual \<noteq> NULL_ID" and vis: "located sm ev answer visual"
  shows "game_colliders sm self visual ev =
     (Inr (), withOperand
        (withInstance ev ''wollok.lang.List''
           (Some (IdsValue (filter
              (\<lambda>i. colocated ev (positionOf ev answer visual) (positionOf ev answer i)
                    \<and> i \<noteq> visual) ids))))
        (uuid ev (created ev)))"
proof -
  let ?p = "positionOf ev answer visual"
  from vis have pos: "comparable ev ?p" by (simp add: located_def)
  from ids have ll: "isLive ev l" "isCollection ev l" "elements ev l = ids"
    by (auto simp: innerOf_def isLive_def isCollection_def elements_def split: option.splits)
  from self l ll have get: "RuntimeObject_get self ''visuals'' ev = (Inr (Some l), ev)"
    by (simp add: RuntimeObject_get_eq liveAttribute_def)
  have filt: "filterM (samePosition sm ?p) ids ev =
      (Inr (filter (\<lambda>i. colocated ev ?p (positionOf ev answer i)) ids), ev)"
    using loc by (intro filterM_pure samePosition_eq [OF frame _ pos]) simp
  show ?thesis
    using frame ll nonnull
    by (simp add: game_colliders_def checkNotNull_def get assertIsCollection_eq
        getPosition_eq [OF frame vis] filt newList_def
        createInstance_eq returnValue_def pushOperand_eq monad_defs)
qed

section \<open>Claims about the natives\<close>

lemmas example_defs = exampleEvaluation_def exampleInstances_def exampleEnvironment_def
  runtimeObject_def exampleBoard_def examplePaused_def exampleMalformed_def
lemmas read_defs = attributeOf_def innerOf_def isLive_def moduleOf_def statusOf_def
  collectionOf_def elements_def isCollection_def liveAttribute_def comparable_def
  collectionOrAbsent_def topOperands_def colocated_def positionOf_def

lemma exampleSend_answers:
  "exampleSend ''currentTime'' r [] ev = pushOperand ''now'' ev"
  "answers exampleSend ''position'' r ev ''pb''"
  by (simp_all add: exampleSend_def sendMessage_def answers_def monad_defs)

text \<open>
  C1. The say native leaves the operand stack two entries deeper, not one. Whenever
  there is a frame, io resolves, the send of currentTime answers a number by pushing it
  and the visual is live, say takes that answer off the stack again and then sets two
  attributes through the \<open>set\<close> helper, which returns void each time: it pushes
  \<open>VOID_ID\<close> twice. The witness runs it on the example evaluation, from an empty
  operand stack.
\<close>

theorem say_pushes_twice:
  assumes frame: "frameStack ev \<noteq> []"
    and io: "environment ev ''wollok.io.io'' = Some ioNode"
    and send: "sm ''currentTime'' (node_id ioNode) [] ev = pushOperand t ev"
    and time: "innerOf ev t = Some (NumberValue n)"
    and visual: "isLive ev visual"
  shows "fst (game_say sm addDoubles self visual message ev) = Inr ()
       \<and> topOperands (snd (game_say sm addDoubles self visual message ev))
           = topOperands ev @ [VOID_ID, VOID_ID]"
  using assms by (rule say_twice)

theorem say_pushes_twice_witness:
  "fst (game_say exampleSend (+) ''game'' ''a'' ''hello'' exampleEvaluation) = Inr ()
   \<and> topOperands exampleEvaluation = []
   \<and> topOperands (snd (game_say exampleSend (+) ''game'' ''a'' ''hello'' exampleEvaluation))
       = [VOID_ID, VOID_ID]"
proof -
  have frame: "frameStack exampleEvaluation \<noteq> []"
    by (simp add: example_defs)
  have io: "environment exampleEvaluation ''wollok.io.io''
      = Some \<lparr>node_id = ''io'', node_lookupMethod = (\<lambda>m n. m = ''currentTime'' \<and> n = 0)\<rparr>"
    by (simp add: example_defs)
  have time: "innerOf exampleEvaluation ''now'' = Some (NumberValue 1000)"
    by (simp add: example_defs read_defs)
  have visual: "isLive exampleEvaluation ''a''"
    by (simp add: example_defs read_defs)
  have top: "topOperands exampleEvaluation = []"
    by (simp add: example_defs read_defs)
  have send: "exampleSend ''currentTime''
      (node_id \<lparr>node_id = ''io'', node_lookupMethod = (\<lambda>m n. m = ''currentTime'' \<and> n = 0)\<rparr>)
      [] exampleEvaluation = pushOperand ''now'' exampleEvaluation"
    by (rule exampleSend_answers)
  from say_pushes_twice [where sm = exampleSend, OF frame io send time visual,
      of "(+)" "''game''" "''hello''"] top
  show ?thesis by simp
qed


text \<open>
  What play, stop, pause and resume do on an evaluation with a frame, where the game
  singleton and the sound are live, the attributes read are live, the sounds of the game
  are absent or a collection, and the next two \<open>Id\<close>s are fresh.
\<close>

lemma sound_transitions:
  assumes frame: "frameStack ev \<noteq> []"
    and game: "environment ev ''wollok.game.game'' = Some gnode" "node_id gnode = g"
    and live: "isLive ev g" "moduleOf ev self = Some fqn"
      "liveAttribute ev g ''running''" "liveAttribute ev g ''sounds''"
      "liveAttribute ev self ''status''"
    and coll: "collectionOrAbsent ev g ''sounds''"
    and fresh: "\<not> isLive ev (uuid ev (created ev))" "\<not> isLive ev (uuid ev (Suc (created ev)))"
      "uuid ev (created ev) \<noteq> uuid ev (Suc (created ev))"
  shows "(attributeOf ev g ''running'' \<noteq> Some TRUE_ID \<longrightarrow>
            Sound_play self ev =
              (Inl (HostError ''You cannot play a sound if game has not started''), ev))
       \<and> (attributeOf ev g ''running'' = Some TRUE_ID \<longrightarrow>
            self \<in> set (collectionOf ev g ''sounds'') \<longrightarrow>
            fst (Sound_play self ev) = Inl (TypeError fqn))
       \<and> (attributeOf ev g ''running'' = Some TRUE_ID \<longrightarrow>
            self \<notin> set (collectionOf ev g ''sounds'') \<longrightarrow>
            fst (Sound_play self ev) = Inr ()
            \<and> statusOf (snd (Sound_play self ev)) self = Some (StringValue ''played'')
            \<and> collectionOf (snd (Sound_play self ev)) g ''sounds''
                = collectionOf ev g ''sounds'' @ [self]
            \<and> topOperands (snd (Sound_play self ev)) = topOperands ev @ [VOID_ID])
       \<and> (statusOf ev self \<noteq> Some (StringValue ''played'') \<longrightarrow>
            Sound_stop self ev =
              (Inl (HostError ''You cannot stop a sound that is not played''), ev))
       \<and> (statusOf ev self = Some (StringValue ''played'') \<longrightarrow>
            fst (Sound_stop self ev) = Inr ()
            \<and> statusOf (snd (Sound_stop self ev)) self = Some (StringValue ''stopped'')
            \<and> collectionOf (snd (Sound_stop self ev)) g ''sounds''
                = filter (\<lambda>i. i \<noteq> self) (collectionOf ev g ''sounds'')
            \<and> topOperands (snd (Sound_stop self ev)) = topOperands ev @ [VOID_ID])
       \<and> (statusOf ev self \<noteq> Some (StringValue ''played'') \<longrightarrow>
            Sound_pause self ev =
              (Inl (HostError ''You cannot pause a sound that is not played''), ev))
       \<and> (statusOf ev self = Some (StringValue ''played'') \<longrightarrow>
            fst (Sound_pause self ev) = Inr ()
            \<and> statusOf (snd (Sound_pause self ev)) self = Some (StringValue ''paused'')
            \<and> topOperands (snd (Sound_pause self ev)) = topOperands ev @ [VOID_ID])
       \<and> (statusOf ev self \<noteq> Some (StringValue ''paused'') \<longrightarrow>
            Sound_resume self ev =
              (Inl (HostError ''You cannot resume a sound that is not paused''), ev))
       \<and> (statusOf ev self = Some (StringValue ''paused'') \<longrightarrow>
            fst (Sound_resume self ev) = Inr ()
            \<and> statusOf (snd (Sound_resume self ev)) self = Some (StringValue ''played'')
            \<and> topOperands (snd (Sound_resume self ev)) = topOperands ev @ [VOID_ID])"
proof -
  from live(2) have self: "isLive ev self"
    by (auto simp: moduleOf_def isLive_def)
  from coll have coll': "\<forall>l. attributeOf ev g ''sounds'' = Some l \<longrightarrow> isCollection ev l"
    by (auto simp: collectionOrAbsent_def)
  note play = play_cases [OF frame game live(1,2,3,4) coll' fresh]
  note stop = stop_cases [OF frame game live(1) self live(5,4) coll' fresh(1)]
  note pause = pause_cases [OF frame self live(5) fresh(1)]
  note resume = resume_cases [OF frame self live(5) fresh(1)]
  from play stop pause resume show ?thesis
    by blast
qed


text \<open>
  C8, as the code has it. On an evaluation with a frame, where the game and the visual
  are live, the module of the visual resolves, the visuals attribute is live and the next
  \<open>Id\<close> is fresh: addVisual throws a \<open>TypeError\<close> exactly when the visual is the null
  sentinel, or its module resolves no position method without arguments, or the visuals
  attribute refers to something that is not a collection, or the visual is already among
  the visuals; otherwise it returns, the visuals are the former ones (none when the
  attribute was absent) with the visual appended, and \<open>VOID_ID\<close> is pushed.
\<close>

theorem addVisual_TypeError_iff:
  assumes frame: "frameStack ev \<noteq> []"
    and self: "isLive ev self" and vis: "instances ev visual = Some vobj"
    and module: "environment ev (moduleFQN vobj) = Some node"
    and live: "liveAttribute ev self ''visuals''"
    and fresh: "\<not> isLive ev (uuid ev (created ev))"
  shows "((\<exists>m. fst (game_addVisual self visual ev) = Inl (TypeError m)) \<longleftrightarrow>
           (visual = NULL_ID \<or> \<not> node_lookupMethod node ''position'' 0
            \<or> (\<exists>l. attributeOf ev self ''visuals'' = Some l \<and> \<not> isCollection ev l)
            \<or> visual \<in> set (collectionOf ev self ''visuals'')))
       \<and> (\<not> (visual = NULL_ID \<or> \<not> node_lookupMethod node ''position'' 0
            \<or> (\<exists>l. attributeOf ev self ''visuals'' = Some l \<and> \<not> isCollection ev l)
            \<or> visual \<in> set (collectionOf ev self ''visuals'')) \<longrightarrow>
           fst (game_addVisual self visual ev) = Inr ()
           \<and> collectionOf (snd (game_addVisual self visual ev)) self ''visuals''
               = collectionOf ev self ''visuals'' @ [visual]
           \<and> topOperands (snd (game_addVisual self visual ev)) = topOperands ev @ [VOID_ID])"
  using assms by (rule addVisual_cases)

theorem addVisual_TypeError_iff_witness:
  "''a'' \<noteq> NULL_ID
   \<and> attributeOf exampleEvaluation ''game'' ''visuals'' = None
   \<and> fst (game_addVisual ''game'' ''a'' exampleEvaluation) = Inr ()
   \<and> collectionOf (snd (game_addVisual ''game'' ''a'' exampleEvaluation)) ''game'' ''visuals''
       = [''a'']
   \<and> topOperands (snd (game_addVisual ''game'' ''a'' exampleEvaluation)) = [VOID_ID]"
proof -
  have frame: "frameStack exampleEvaluation \<noteq> []"
    by (simp add: example_defs)
  have self: "isLive exampleEvaluation ''game''"
    by (simp add: example_defs read_defs)
  have vis: "instances exampleEvaluation ''a''
      = Some (runtimeObject ''example.Visual'' [(''position'', ''pa'')] None)"
    by (simp add: example_defs)
  have module: "environment exampleEvaluation
        (moduleFQN (runtimeObject ''example.Visual'' [(''position'', ''pa'')] None))
      = Some \<lparr>node_id = ''Visual'', node_lookupMethod = (\<lambda>m n. m = ''position'' \<and> n = 0)\<rparr>"
    by (simp add: example_defs)
  have live: "liveAttribute exampleEvaluation ''game'' ''visuals''"
    by (simp add: example_defs read_defs)
  have fresh: "\<not> isLive exampleEvaluation (uuid exampleEvaluation (created exampleEvaluation))"
    by (simp add: example_defs read_defs)
  have now: "''a'' \<noteq> NULL_ID" "attributeOf exampleEvaluation ''game'' ''visuals'' = None"
    "collectionOf exampleEvaluation ''game'' ''visuals'' = []"
    "topOperands exampleEvaluation = []"
    by (simp_all add: example_defs read_defs NULL_ID_def)
  from addVisual_TypeError_iff [OF frame self vis module live fresh] now
  show ?thesis by simp
qed

text \<open>
  C10. addVisualIn is not atomic on error. When the visual and the position are not null
  and the visual is already among the visuals of the game, it throws the \<open>TypeError\<close>
  of the duplicate and leaves the evaluation with the position attribute of the visual
  set to the new position: the visuals are unchanged, the position has been written.
\<close>

theorem addVisualIn_not_atomic:
  assumes "visual \<noteq> NULL_ID" and "position \<noteq> NULL_ID"
    and vis: "moduleOf ev visual = Some fqn" and self: "isLive ev self"
    and l: "attributeOf ev self ''visuals'' = Some l"
    and ids: "innerOf ev l = Some (IdsValue ids)"
    and mem: "visual \<in> set ids"
  shows "game_addVisualIn self visual position ev =
           (Inl (TypeError fqn), withAttribute ev visual ''position'' position)
       \<and> collectionOf (snd (game_addVisualIn self visual position ev)) self ''visuals''
           = collectionOf ev self ''visuals''
       \<and> attributeOf (snd (game_addVisualIn self visual position ev)) visual ''position''
           = Some position"
proof -
  from vis have v: "isLive ev visual" by (auto simp: moduleOf_def isLive_def)
  have run: "game_addVisualIn self visual position ev =
           (Inl (TypeError fqn), withAttribute ev visual ''position'' position)"
    using assms by (rule addVisualIn_throws)
  show ?thesis
    using v l by (simp add: run collectionOf_def elements_def)
qed

theorem addVisualIn_not_atomic_witness:
  "attributeOf exampleBoard ''a'' ''position'' = Some ''pa''
   \<and> collectionOf exampleBoard ''game'' ''visuals'' = [''a'', ''b'', ''c'']
   \<and> fst (game_addVisualIn ''game'' ''a'' ''q'' exampleBoard) = Inl (TypeError ''example.Visual'')
   \<and> collectionOf (snd (game_addVisualIn ''game'' ''a'' ''q'' exampleBoard)) ''game'' ''visuals''
       = [''a'', ''b'', ''c'']
   \<and> attributeOf (snd (game_addVisualIn ''game'' ''a'' ''q'' exampleBoard)) ''a'' ''position''
       = Some ''q''"
proof -
  have nonnull: "''a'' \<noteq> NULL_ID" "''q'' \<noteq> NULL_ID"
    by (simp_all add: NULL_ID_def)
  have vis: "moduleOf exampleBoard ''a'' = Some ''example.Visual''"
    and self: "isLive exampleBoard ''game''"
    and l: "attributeOf exampleBoard ''game'' ''visuals'' = Some ''board''"
    and ids: "innerOf exampleBoard ''board'' = Some (IdsValue [''a'', ''b'', ''c''])"
    by (simp_all add: example_defs read_defs)
  have mem: "''a'' \<in> set [''a'', ''b'', ''c'']"
    by simp
  have now: "attributeOf exampleBoard ''a'' ''position'' = Some ''pa''"
    "collectionOf exampleBoard ''game'' ''visuals'' = [''a'', ''b'', ''c'']"
    by (simp_all add: example_defs read_defs)
  note run = addVisualIn_not_atomic [OF nonnull vis self l ids mem]
  from run [THEN conjunct1]
  have thrown: "fst (game_addVisualIn ''game'' ''a'' ''q'' exampleBoard)
      = Inl (TypeError ''example.Visual'')"
    by simp
  from run [THEN conjunct2] now thrown
  show ?thesis by simp
qed


text \<open>
  C9. On an evaluation with a frame where the visuals of the game are the collection
  \<open>ids\<close> and the position of every one of them can be taken: the position
  \<open>getPosition\<close> answers for a visual is its position attribute when it has one and
  what the send of the position selector answers otherwise; getObjectsIn returns a new
  list of exactly the visuals whose position has the same x and the same y attribute
  \<open>Id\<close> as the given position, in order; colliders returns a new list of exactly the
  visuals whose position is colocated in that sense with the position of the given
  visual, that visual itself left out by \<open>Id\<close>.
\<close>

theorem colocated_visuals:
  assumes frame: "frameStack ev \<noteq> []" and self: "isLive ev self"
    and l: "attributeOf ev self ''visuals'' = Some l"
    and ids: "innerOf ev l = Some (IdsValue ids)"
    and loc: "\<forall>i\<in>set ids. located sm ev answer i"
  shows "(\<forall>i\<in>set ids. getPosition sm i ev = (Inr (positionOf ev answer i), ev))
       \<and> (comparable ev position \<longrightarrow>
            game_getObjectsIn sm self position ev =
              (Inr (), withOperand
                 (withInstance ev ''wollok.lang.List''
                    (Some (IdsValue (filter
                       (\<lambda>i. colocated ev position (positionOf ev answer i)) ids))))
                 (uuid ev (created ev))))
       \<and> (visual \<noteq> NULL_ID \<longrightarrow> located sm ev answer visual \<longrightarrow>
            game_colliders sm self visual ev =
              (Inr (), withOperand
                 (withInstance ev ''wollok.lang.List''
                    (Some (IdsValue (filter
                       (\<lambda>i. colocated ev (positionOf ev answer visual) (positionOf ev answer i)
                             \<and> i \<noteq> visual) ids))))
                 (uuid ev (created ev))))"
proof (intro conjI impI ballI)
  fix i assume "i \<in> set ids"
  with loc have "located sm ev answer i" by simp
  with frame show "getPosition sm i ev = (Inr (positionOf ev answer i), ev)"
    by (rule getPosition_eq)
next
  assume "comparable ev position"
  with frame self l ids loc show "game_getObjectsIn sm self position ev =
              (Inr (), withOperand
                 (withInstance ev ''wollok.lang.List''
                    (Some (IdsValue (filter
                       (\<lambda>i. colocated ev position (positionOf ev answer i)) ids))))
                 (uuid ev (created ev)))"
    by (rule getObjectsIn_eq)
next
  assume "visual \<noteq> NULL_ID" and "located sm ev answer visual"
  with frame self l ids loc show "game_colliders sm self visual ev =
              (Inr (), withOperand
                 (withInstance ev ''wollok.lang.List''
                    (Some (IdsValue (filter
                       (\<lambda>i. colocated ev (positionOf ev answer visual) (positionOf ev answer i)
                             \<and> i \<noteq> visual) ids))))
                 (uuid ev (created ev)))"
    by (rule colliders_eq)
qed

theorem colocated_visuals_witness:
  "positionOf exampleBoard (\<lambda>i. ''pb'') ''a'' = ''pa''
   \<and> positionOf exampleBoard (\<lambda>i. ''pb'') ''b'' = ''pb''
   \<and> positionOf exampleBoard (\<lambda>i. ''pb'') ''c'' = ''pc''
   \<and> game_getObjectsIn exampleSend ''game'' ''q'' exampleBoard =
       (Inr (), withOperand
          (withInstance exampleBoard ''wollok.lang.List'' (Some (IdsValue [''a'', ''b''])))
          ''#'')
   \<and> game_colliders exampleSend ''game'' ''a'' exampleBoard =
       (Inr (), withOperand
          (withInstance exampleBoard ''wollok.lang.List'' (Some (IdsValue [''b''])))
          ''#'')"
proof -
  have frame: "frameStack exampleBoard \<noteq> []"
    and self: "isLive exampleBoard ''game''"
    and l: "attributeOf exampleBoard ''game'' ''visuals'' = Some ''board''"
    and ids: "innerOf exampleBoard ''board'' = Some (IdsValue [''a'', ''b'', ''c''])"
    by (simp_all add: example_defs read_defs)
  have pos: "positionOf exampleBoard (\<lambda>i. ''pb'') ''a'' = ''pa''"
    "positionOf exampleBoard (\<lambda>i. ''pb'') ''b'' = ''pb''"
    "positionOf exampleBoard (\<lambda>i. ''pb'') ''c'' = ''pc''"
    by (simp_all add: example_defs read_defs)
  have cmp: "comparable exampleBoard ''pa''" "comparable exampleBoard ''pb''"
    "comparable exampleBoard ''pc''" "comparable exampleBoard ''q''"
    by (simp_all add: example_defs read_defs)
  have liv: "isLive exampleBoard ''a''" "isLive exampleBoard ''b''" "isLive exampleBoard ''c''"
    by (simp_all add: example_defs read_defs)
  have loc: "\<forall>i\<in>set [''a'', ''b'', ''c'']. located exampleSend exampleBoard (\<lambda>i. ''pb'') i"
    by (simp add: located_def pos cmp liv exampleSend_answers split: option.splits)
  have col: "colocated exampleBoard ''q'' ''pa''" "colocated exampleBoard ''q'' ''pb''"
    "\<not> colocated exampleBoard ''q'' ''pc''"
    "colocated exampleBoard ''pa'' ''pa''" "colocated exampleBoard ''pa'' ''pb''"
    "\<not> colocated exampleBoard ''pa'' ''pc''"
    by (simp_all add: example_defs read_defs)
  have new: "uuid exampleBoard (created exampleBoard) = ''#''"
    by (simp add: example_defs)
  have nonnull: "''a'' \<noteq> NULL_ID"
    by (simp add: NULL_ID_def)
  have a: "located exampleSend exampleBoard (\<lambda>i. ''pb'') ''a''"
    using loc by simp
  note run = colocated_visuals [where sm = exampleSend and answer = "\<lambda>i. ''pb''",
      OF frame self l ids loc, of "''q''" "''a''"]
  from run [THEN conjunct2, THEN conjunct1] cmp(4)
  have first: "game_getObjectsIn exampleSend ''game'' ''q'' exampleBoard =
       (Inr (), withOperand
          (withInstance exampleBoard ''wollok.lang.List'' (Some (IdsValue [''a'', ''b''])))
          ''#'')"
    by (simp add: pos col new)
  from run [THEN conjunct2, THEN conjunct2] nonnull a
  have second: "game_colliders exampleSend ''game'' ''a'' exampleBoard =
       (Inr (), withOperand
          (withInstance exampleBoard ''wollok.lang.List'' (Some (IdsValue [''b''])))
          ''#'')"
    by (simp add: pos col new)
  from pos first second show ?thesis by simp
qed

text \<open>
  C5. The natives do not realise the state machine at play from Paused. On a running
  game the sound is played and then paused, both with success, which leaves it paused
  and among the sounds of the game. A play from there fails, with the \<open>TypeError\<close> of
  the duplicate that carries the module name, and yet leaves the status "played": play
  writes the status before \<open>addSound\<close> rejects the duplicate. The sound is Played
  again by an event that failed, and a pause succeeds on it once more.
\<close>

theorem play_from_paused_rewrites_status:
  "fst (Sound_play ''sound'' exampleEvaluation) = Inr ()
   \<and> fst (Sound_pause ''sound'' (snd (Sound_play ''sound'' exampleEvaluation))) = Inr ()
   \<and> attributeOf examplePaused ''game'' ''running'' = Some TRUE_ID
   \<and> statusOf examplePaused ''sound'' = Some (StringValue ''paused'')
   \<and> collectionOf examplePaused ''game'' ''sounds'' = [''sound'']
   \<and> fst (Sound_play ''sound'' examplePaused) = Inl (TypeError ''wollok.game.Sound'')
   \<and> statusOf (snd (Sound_play ''sound'' examplePaused)) ''sound''
       = Some (StringValue ''played'')
   \<and> collectionOf (snd (Sound_play ''sound'' examplePaused)) ''game'' ''sounds'' = [''sound'']
   \<and> fst (Sound_pause ''sound'' (snd (Sound_play ''sound'' examplePaused))) = Inr ()"
  by code_simp

text \<open>
  C8 as stated fails: there is a fourth way to a \<open>TypeError\<close>. In the example where
  the visuals attribute of the game refers to a string, addVisual throws the
  \<open>TypeError\<close> of \<open>assertIsCollection\<close> although the visual is not null, its module
  resolves position and it is not among the visuals.
\<close>

theorem addVisual_malformed:
  "fst (game_addVisual ''game'' ''a'' exampleMalformed)
     = Inl (TypeError ''Malformed Runtime Object: Collection inner value should be a List<Id>'')
   \<and> ''a'' \<noteq> NULL_ID
   \<and> fst (lookupMethod ''a'' ''position'' exampleMalformed) = Inr True
   \<and> ''a'' \<notin> set (collectionOf exampleMalformed ''game'' ''visuals'')"
  by code_simp


end
